theory Spec2Isabelle
  imports Main "HOL-Library.Word" "HOL-Library.Signed_Division"
begin

unbundle bit_operations_syntax

section \<open>The judger: a shallow embedding of judger.cpp\<close>

text \<open>
  The program is three cooperating processes: the supervisor (\<open>main\<close>), container-init
  (\<open>container_init\<close>) and the executor (\<open>sandbox_executor\<close>). Each is embedded as a
  function of its inputs and of an environment record that fixes the outcome of every
  system call the process makes; every \<open>throw\<close> and early \<open>return\<close> of the source
  is a branch of the embedding.
\<close>

subsection \<open>Machine integers\<close>

text \<open>
  \<open>int\<close> is a 32-bit and \<open>long long\<close> a 64-bit two's-complement word. Addition and
  multiplication wrap around; \<open>/\<close> and \<open>%\<close> truncate towards zero (\<open>sdiv\<close>,
  \<open>smod\<close>); a conversion to a narrower type keeps the low bits (\<open>ucast\<close>) and one to
  a wider signed type extends the sign (\<open>scast\<close>).
\<close>

type_synonym c_int = "32 word"
type_synonym c_llong = "64 word"

definition c_div :: "'a::len word \<Rightarrow> 'a word \<Rightarrow> 'a word" where
  "c_div a b = word_of_int (sint a sdiv sint b)"

definition c_mod :: "'a::len word \<Rightarrow> 'a word \<Rightarrow> 'a word" where
  "c_mod a b = word_of_int (sint a smod sint b)"

definition EXTRA_TIME :: c_int where
  "EXTRA_TIME = 1000"

subsection \<open>Exceptions\<close>

text \<open>
  Every exception the program can raise derives from \<open>std::exception\<close>; the string is
  what \<open>what()\<close> returns. The program itself throws \<open>runtime_error\<close> only; the
  others come from the standard library (over-long \<open>std::string\<close> and \<open>std::vector\<close>
  sizes, \<open>std::stoll\<close>, \<open>std::stoi\<close>, and \<open>operator new\<close> when it cannot grant the
  buffer for the content of an output file) with the messages of libstdc++.
\<close>

datatype exn =
    runtime_error string
  | length_error string
  | invalid_argument string
  | out_of_range string
  | bad_alloc

fun what :: "exn \<Rightarrow> string" where
  "what (runtime_error m) = m"
| "what (length_error m) = m"
| "what (invalid_argument m) = m"
| "what (out_of_range m) = m"
| "what bad_alloc = ''std::bad_alloc''"

subsection \<open>Enumerations and structures\<close>

datatype Verdict = VERDICT_OK | VERDICT_TLE | VERDICT_MLE | VERDICT_RE | VERDICT_UKE

fun verdict_int :: "Verdict \<Rightarrow> c_int" where
  "verdict_int VERDICT_OK = 0"
| "verdict_int VERDICT_TLE = 1"
| "verdict_int VERDICT_MLE = 2"
| "verdict_int VERDICT_RE = 3"
| "verdict_int VERDICT_UKE = 4"

record FileInfo =
  filename :: string
  content :: string
  mode :: c_int

record JudgeConfig =
  time_limit :: c_int
  memory_limit :: c_llong
  pids_limit :: c_int
  rootfs :: string
  tmpfs_size :: string
  cgroup :: string
  sandbox_id :: string
  stdin_content :: string
  cmdline :: "string list"
  input_files :: "FileInfo list"
  output_filenames :: "string list"

record JudgeResult =
  verdict :: Verdict
  time :: c_int
  memory :: c_llong
  stdout_content :: string
  stderr_content :: string
  output_files :: "FileInfo list"

subsection \<open>Object representation of integers\<close>

text \<open>
  \<open>write_full(fd, &len, sizeof(int))\<close> sends the bytes of the integer as they lie in
  memory: least significant byte first on the Linux targets of the program.
\<close>

primrec le_bytes :: "nat \<Rightarrow> nat \<Rightarrow> string" where
  "le_bytes 0 v = []"
| "le_bytes (Suc n) v = char_of (v mod 256) # le_bytes n (v div 256)"

primrec le_val :: "string \<Rightarrow> nat" where
  "le_val [] = 0"
| "le_val (c # cs) = of_char c + 256 * le_val cs"

definition int_bytes :: "c_int \<Rightarrow> string" where
  "int_bytes w = le_bytes 4 (unat w)"

definition bytes_int :: "string \<Rightarrow> c_int" where
  "bytes_int b = of_nat (le_val b)"

definition llong_bytes :: "c_llong \<Rightarrow> string" where
  "llong_bytes w = le_bytes 8 (unat w)"

definition bytes_llong :: "string \<Rightarrow> c_llong" where
  "bytes_llong b = of_nat (le_val b)"

subsection \<open>Descriptors: \<open>read_full\<close> and \<open>write_full\<close>\<close>

text \<open>
  A descriptor open for reading is the bytes that will arrive on it before end of file,
  together with a log of the sizes \<open>read_full\<close> was called with. \<open>read_full\<close> loops
  over short reads until it has \<open>sz\<close> bytes and throws when the data ends first.

  A descriptor open for writing is the bytes written so far and a script of faults: each
  call of \<open>write_full\<close> that has something to write takes the head of the script,
  \<open>None\<close> for a call whose \<open>write\<close>s all succeed, \<open>Some k\<close> for one where
  \<open>write\<close> fails (with an error other than \<open>EINTR\<close>) after \<open>k\<close> bytes, at the
  latest before the last byte. With the script used up every write succeeds.
\<close>

record istream =
  pending :: string
  calls :: "nat list"

record ostream =
  written :: string
  faults :: "nat option list"

definition read_full :: "nat \<Rightarrow> istream \<Rightarrow> exn + (string \<times> istream)" where
  "read_full sz s =
     (if sz \<le> length (pending s)
      then Inr (take sz (pending s),
                s\<lparr>pending := drop sz (pending s), calls := calls s @ [sz]\<rparr>)
      else Inl (runtime_error ''Read failed or EOF''))"

definition write_full :: "string \<Rightarrow> ostream \<Rightarrow> (exn + unit) \<times> ostream" where
  "write_full buf s =
     (if buf = [] then (Inr (), s)
      else case faults s of
        [] \<Rightarrow> (Inr (), s\<lparr>written := written s @ buf\<rparr>)
      | None # fs \<Rightarrow> (Inr (), s\<lparr>written := written s @ buf, faults := fs\<rparr>)
      | Some k # fs \<Rightarrow>
          (Inl (runtime_error ''Write failed''),
           s\<lparr>written := written s @ take k (butlast buf), faults := fs\<rparr>))"

definition read_int :: "istream \<Rightarrow> exn + (c_int \<times> istream)" where
  "read_int s =
     (case read_full 4 s of
        Inl e \<Rightarrow> Inl e
      | Inr (b, s') \<Rightarrow> Inr (bytes_int b, s'))"

definition read_llong :: "istream \<Rightarrow> exn + (c_llong \<times> istream)" where
  "read_llong s =
     (case read_full 8 s of
        Inl e \<Rightarrow> Inl e
      | Inr (b, s') \<Rightarrow> Inr (bytes_llong b, s'))"

subsection \<open>The length-prefixed codec\<close>

text \<open>
  \<open>std::string s(len, 0)\<close> with a negative \<open>len\<close> asks for more than
  \<open>max_size()\<close> characters and throws \<open>length_error\<close>. In \<open>write_proto_str\<close> the
  length is narrowed to \<open>int\<close> before it is sent.
\<close>

definition read_proto_str :: "istream \<Rightarrow> exn + (string \<times> istream)" where
  "read_proto_str s =
     (case read_int s of
        Inl e \<Rightarrow> Inl e
      | Inr (len, s1) \<Rightarrow>
          if len = 0 then Inr ([], s1)
          else if len <s 0 then Inl (length_error ''basic_string::_M_create'')
          else read_full (unat len) s1)"

definition write_proto_str :: "string \<Rightarrow> ostream \<Rightarrow> (exn + unit) \<times> ostream" where
  "write_proto_str s out =
     (let len = (of_nat (length s) :: c_int) in
      case write_full (int_bytes len) out of
        (Inl e, out1) \<Rightarrow> (Inl e, out1)
      | (Inr u, out1) \<Rightarrow>
          if 0 <s len then write_full (take (unat len) s) out1 else (Inr (), out1))"

definition write_proto_buf :: "string \<Rightarrow> ostream \<Rightarrow> (exn + unit) \<times> ostream" where
  "write_proto_buf buf out =
     (let len = (of_nat (length buf) :: c_int) in
      case write_full (int_bytes len) out of
        (Inl e, out1) \<Rightarrow> (Inl e, out1)
      | (Inr u, out1) \<Rightarrow>
          if 0 <s len then write_full (take (unat len) buf) out1 else (Inr (), out1))"

subsection \<open>Standard-library text functions\<close>

text \<open>
  \<open>isspace\<close> and \<open>isdigit\<close> of the C locale; \<open>operator>>\<close> into a
  \<open>std::string\<close> skips white space and takes the characters up to the next white space,
  failing when none is left; \<open>std::stoll\<close> and \<open>std::stoi\<close> skip white space, take
  an optional sign and the longest run of decimal digits, and throw when there is no digit
  or the value does not fit; \<open>std::to_string\<close> prints in decimal.
\<close>

definition isspace :: "char \<Rightarrow> bool" where
  "isspace c \<longleftrightarrow> c \<in> set [CHR '' '', CHR 0x09, CHR 0x0A, CHR 0x0B, CHR 0x0C, CHR 0x0D]"

definition isdigit :: "char \<Rightarrow> bool" where
  "isdigit c \<longleftrightarrow> (48::nat) \<le> of_char c \<and> (of_char c :: nat) \<le> 57"

definition extract_token :: "string \<Rightarrow> (string \<times> string) option" where
  "extract_token s =
     (let t = dropWhile isspace s
      in if t = [] then None
         else Some (takeWhile (\<lambda>c. \<not> isspace c) t, dropWhile (\<lambda>c. \<not> isspace c) t))"

definition dec_val :: "string \<Rightarrow> nat" where
  "dec_val ds = foldl (\<lambda>a c. 10 * a + (of_char c - 48)) 0 ds"

definition parse_decimal :: "string \<Rightarrow> int option" where
  "parse_decimal s =
     (let t = dropWhile isspace s;
          neg = (t \<noteq> [] \<and> hd t = CHR ''-'');
          u = (if t \<noteq> [] \<and> (hd t = CHR ''-'' \<or> hd t = CHR ''+'') then tl t else t);
          ds = takeWhile isdigit u
      in if ds = [] then None
         else Some (if neg then - int (dec_val ds) else int (dec_val ds)))"

definition stoll :: "string \<Rightarrow> exn + c_llong" where
  "stoll s =
     (case parse_decimal s of
        None \<Rightarrow> Inl (invalid_argument ''stoll'')
      | Some v \<Rightarrow>
          if v < - (2 ^ 63) \<or> 2 ^ 63 \<le> v then Inl (out_of_range ''stoll'')
          else Inr (word_of_int v))"

definition stoi :: "string \<Rightarrow> exn + c_int" where
  "stoi s =
     (case parse_decimal s of
        None \<Rightarrow> Inl (invalid_argument ''stoi'')
      | Some v \<Rightarrow>
          if v < - (2 ^ 31) \<or> 2 ^ 31 \<le> v then Inl (out_of_range ''stoi'')
          else Inr (word_of_int v))"

fun dec_digits :: "nat \<Rightarrow> string" where
  "dec_digits n =
     (if n < 10 then [char_of (48 + n)]
      else dec_digits (n div 10) @ [char_of (48 + n mod 10)])"

declare dec_digits.simps [simp del]

definition to_string :: "int \<Rightarrow> string" where
  "to_string i = (if i < 0 then CHR ''-'' # dec_digits (nat (- i)) else dec_digits (nat i))"

subsection \<open>Files\<close>

text \<open>
  What a path gives when the process opens it for reading. Either the stream cannot be
  opened (the file is missing or may not be read), or it opens: then \<open>Opens sz fits d\<close>
  gives the position \<open>sz\<close> that \<open>tellg\<close> reports at the end of the stream (\<open>-1\<close> when
  the position cannot be told, a huge number for a directory), whether \<open>operator new\<close>
  grants a buffer of that many bytes, and the bytes \<open>d\<close> that reading delivers before the
  end of the file or a read error. A regular file of \<open>d\<close> bytes that fits in memory is
  \<open>regular d\<close>. Whether a path can be written is an outcome fixed by the environment; the
  text that is written is not kept.

  \<open>read_file\<close> copies what the stream delivers and never throws. \<open>read_bin_file\<close>
  builds \<open>std::vector<char> buf(size)\<close> from the position before it reads: a negative
  \<open>size\<close> is, as a \<open>size_t\<close>, above \<open>max_size()\<close> and throws \<open>length_error\<close>, and
  a size that is not granted throws \<open>bad_alloc\<close>; \<open>ifs.read(buf.data(), size)\<close> succeeds
  when \<open>size\<close> bytes can be read, and the empty vector is returned when they cannot.
\<close>

datatype fnode = NoOpen | Opens c_llong bool string

definition regular :: "string \<Rightarrow> fnode" where
  "regular d = Opens (of_nat (length d)) True d"

definition read_file :: "(string \<Rightarrow> fnode) \<Rightarrow> string \<Rightarrow> string" where
  "read_file fs path =
     (case fs path of
        NoOpen \<Rightarrow> []
      | Opens sz fits d \<Rightarrow> d)"

definition read_bin_file :: "(string \<Rightarrow> fnode) \<Rightarrow> string \<Rightarrow> exn + string" where
  "read_bin_file fs path =
     (case fs path of
        NoOpen \<Rightarrow> Inr []
      | Opens sz fits d \<Rightarrow>
          if sz <s 0
          then Inl (length_error ''cannot create std::vector larger than max_size()'')
          else if \<not> fits then Inl bad_alloc
          else if unat sz \<le> length d then Inr (take (unat sz) d)
          else Inr [])"

definition write_file :: "(string \<Rightarrow> bool) \<Rightarrow> string \<Rightarrow> string \<Rightarrow> exn + unit" where
  "write_file can_write path text =
     (if \<not> can_write path then Inl (runtime_error (''Failed to write text: '' @ path))
      else Inr ())"

definition write_bin_file ::
    "(string \<Rightarrow> bool) \<Rightarrow> (string \<Rightarrow> bool) \<Rightarrow> string \<Rightarrow> string \<Rightarrow> c_int \<Rightarrow> exn + unit" where
  "write_bin_file can_create can_fill path buf md =
     (if \<not> can_create path then Inl (runtime_error (''Failed to create file: '' @ path))
      else if buf \<noteq> [] \<and> \<not> can_fill path then Inl (runtime_error ''Write file error'')
      else Inr ())"

subsection \<open>\<open>get_cgroup_key\<close>\<close>

function get_cgroup_key :: "string \<Rightarrow> string \<Rightarrow> string" where
  "get_cgroup_key s k =
     (case extract_token s of
        None \<Rightarrow> ''0''
      | Some (key, s1) \<Rightarrow>
          (case extract_token s1 of
             None \<Rightarrow> ''0''
           | Some (val, s2) \<Rightarrow> if key = k then val else get_cgroup_key s2 k))"
  by pat_completeness auto
termination
proof (relation "measure (\<lambda>(s, k). length s)")
  show "wf (measure (\<lambda>(s, k). length s))"
    by simp
next
  fix s k :: string and x2 key s1 y2 val s2
  assume a: "extract_token s = Some x2" "(key, s1) = x2"
    and b: "extract_token s1 = Some y2" "(val, s2) = y2"
  have le: "length r \<le> length t" if "extract_token t = Some (x, r)" for t x r :: string
  proof -
    have "r = dropWhile (\<lambda>c. \<not> isspace c) (dropWhile isspace t)"
      using that by (auto simp: extract_token_def Let_def split: if_splits)
    then show ?thesis
      by (metis length_dropWhile_le le_trans)
  qed
  have lt: "length r < length t" if "extract_token t = Some (x, r)" for t x r :: string
  proof -
    let ?u = "dropWhile isspace t"
    have u: "?u \<noteq> []" and r: "r = dropWhile (\<lambda>c. \<not> isspace c) ?u"
      using that by (auto simp: extract_token_def Let_def split: if_splits)
    from u have "\<not> isspace (hd ?u)"
      by (simp add: hd_dropWhile)
    with u have "r = dropWhile (\<lambda>c. \<not> isspace c) (tl ?u)"
      unfolding r by (cases ?u) auto
    then have "length r \<le> length (tl ?u)"
      using length_dropWhile_le [of "\<lambda>c. \<not> isspace c" "tl ?u"] by simp
    also have "\<dots> < length ?u"
      using u by (cases ?u) auto
    also have "\<dots> \<le> length t"
      by (rule length_dropWhile_le)
    finally show ?thesis .
  qed
  from a have "length s1 < length s"
    using lt [of s key s1] by simp
  moreover from b have "length s2 \<le> length s1"
    using le [of s1 val s2] by simp
  ultimately show "((s2, k), (s, k)) \<in> measure (\<lambda>(s, k). length s)"
    by simp
qed

declare get_cgroup_key.simps [simp del]

subsection \<open>Wait statuses\<close>

text \<open>
  The macros of \<open><sys/wait.h>\<close> on Linux: the low seven bits of a wait status hold the
  terminating signal and are zero for a normal exit, whose exit code is the next byte.
\<close>

definition WIFEXITED :: "c_int \<Rightarrow> bool" where
  "WIFEXITED status \<longleftrightarrow> status AND 0x7f = 0"

definition WEXITSTATUS :: "c_int \<Rightarrow> c_int" where
  "WEXITSTATUS status = drop_bit 8 (status AND 0xff00)"

subsection \<open>Container-init: collecting the result\<close>

text \<open>
  Lines 349 to 384 of \<open>container_init\<close>, from the wait status of the executor and the
  files as they are after the run. \<open>std::stoll\<close>, \<open>std::stoi\<close> and
  \<open>read_bin_file\<close> are called outside any \<open>try\<close>: an exception of theirs ends the
  process. The output files are read in the order of their names, up to the first
  exception.
\<close>

definition exit_code_of :: "c_int \<Rightarrow> c_int" where
  "exit_code_of status = (if WIFEXITED status then WEXITSTATUS status else 255)"

definition exit_verdict :: "c_int \<Rightarrow> Verdict" where
  "exit_verdict exit_code =
     (if exit_code = 0 then VERDICT_OK
      else if exit_code = 1 then VERDICT_RE
      else if exit_code = 2 then VERDICT_TLE
      else VERDICT_UKE)"

primrec collect_output_files ::
    "(string \<Rightarrow> fnode) \<Rightarrow> string \<Rightarrow> string list \<Rightarrow> exn + FileInfo list" where
  "collect_output_files fs tmp_path [] = Inr []"
| "collect_output_files fs tmp_path (fname # fnames) =
     (case read_bin_file fs (tmp_path @ ''/'' @ fname) of
        Inl e \<Rightarrow> Inl e
      | Inr buf \<Rightarrow>
          (case collect_output_files fs tmp_path fnames of
             Inl e \<Rightarrow> Inl e
           | Inr files \<Rightarrow> Inr (\<lparr>filename = fname, content = buf, mode = 0\<rparr> # files)))"

definition collect_result ::
    "(string \<Rightarrow> fnode) \<Rightarrow> JudgeConfig \<Rightarrow> c_int \<Rightarrow> string \<Rightarrow> string \<Rightarrow> exn + JudgeResult" where
  "collect_result fs cfg status cgroup_path tmp_path =
     (let exit_code = exit_code_of status;
          cpu_stat = read_file fs (cgroup_path @ ''/cpu.stat'');
          mem_peak = read_file fs (cgroup_path @ ''/memory.peak'');
          mem_events = read_file fs (cgroup_path @ ''/memory.events'')
      in (case stoll (get_cgroup_key cpu_stat ''user_usec'') of
            Inl e \<Rightarrow> Inl e
          | Inr usec \<Rightarrow>
         (let res_time = (ucast (c_div usec 1000) :: c_int)
          in (case (if mem_peak = [] then Inr 0 else stoll mem_peak) of
                Inl e \<Rightarrow> Inl e
              | Inr peak \<Rightarrow>
         (let res_memory = c_div (c_div peak 1024) 1024
          in (case stoi (get_cgroup_key mem_events ''oom_kill'') of
                Inl e \<Rightarrow> Inl e
              | Inr oom \<Rightarrow>
         (let v0 = exit_verdict exit_code;
              v1 = (if oom \<noteq> 0 then VERDICT_MLE else v0);
              v2 = (if time_limit cfg <s res_time then VERDICT_TLE else v1);
              out_str = read_file fs (tmp_path @ ''/stdout'');
              err_str = read_file fs (tmp_path @ ''/stderr'')
          in (case collect_output_files fs tmp_path (output_filenames cfg) of
                Inl e \<Rightarrow> Inl e
              | Inr files \<Rightarrow>
                  Inr \<lparr>verdict = v2,
                       time = res_time,
                       memory = res_memory,
                       stdout_content = out_str,
                       stderr_content = err_str,
                       output_files = files\<rparr>))))))))"

subsection \<open>Reference definitions in the words of the specification\<close>

text \<open>
  A cgroup file as the specification reads it: the text is cut into tokens at white
  space, the tokens are taken two by two as key and value, and a key that no pair has
  reads as \<open>''0''\<close>. Compared with \<open>get_cgroup_key\<close> below.
\<close>

fun ws_tokens :: "string \<Rightarrow> string \<Rightarrow> string list" where
  "ws_tokens cur [] = (if cur = [] then [] else [cur])"
| "ws_tokens cur (c # cs) =
     (if isspace c then (if cur = [] then ws_tokens [] cs else cur # ws_tokens [] cs)
      else ws_tokens (cur @ [c]) cs)"

fun kv_pairs :: "string list \<Rightarrow> (string \<times> string) list" where
  "kv_pairs (k # v # rest) = (k, v) # kv_pairs rest"
| "kv_pairs rest = []"

definition cgroup_lookup :: "string \<Rightarrow> string \<Rightarrow> string" where
  "cgroup_lookup s k = (case map_of (kv_pairs (ws_tokens [] s)) k of None \<Rightarrow> ''0'' | Some v \<Rightarrow> v)"

subsection \<open>The executor: \<open>sandbox_executor\<close>\<close>

text \<open>
  The environment of the executor gives the outcome of each of its system calls. The
  embedding follows the parent side of \<open>fork\<close> and returns the calls it makes on the
  grandchild, in order, with the way the function ends; on the child side the process
  becomes the judged program. \<open>write_file\<close> is called outside any \<open>try\<close>.
\<close>

record exec_env =
  chdir_ok :: bool
  stdin_writable :: bool
  barrier_read :: c_int
  sigprocmask_ret :: c_int
  fork_ret :: c_int
  sigtimedwait_ret :: c_int
  errno_is_EAGAIN :: bool
  waitpid_nohang_ret :: c_int
  child_status :: c_int

datatype syscall =
    Sigtimedwait c_llong c_llong
  | Kill_SIGKILL c_int
  | Waitpid c_int
  | Waitpid_WNOHANG c_int

datatype exec_end = Returns c_int | Throws exn | Execs

definition wait_timeout :: "c_int \<Rightarrow> c_llong \<times> c_llong" where
  "wait_timeout limit =
     (let time_limit_ms = limit + EXTRA_TIME;
          tv_sec = (scast (c_div time_limit_ms 1000) :: c_llong);
          tv_nsec = (scast (c_mod time_limit_ms 1000 * 1000000) :: c_llong)
      in (tv_sec, tv_nsec))"

definition sandbox_executor :: "exec_env \<Rightarrow> JudgeConfig \<Rightarrow> syscall list \<times> exec_end" where
  "sandbox_executor env cfg =
     (if \<not> chdir_ok env then ([], Returns 1)
      else (case write_file (\<lambda>p. stdin_writable env) ''stdin'' (stdin_content cfg) of
              Inl e \<Rightarrow> ([], Throws e)
            | Inr u \<Rightarrow>
      if barrier_read env \<le>s 0 then ([], Returns 1)
      else if sigprocmask_ret env = - 1 then ([], Returns 1)
      else
        (let pid = fork_ret env
         in if pid <s 0 then ([], Returns 1)
            else if pid = 0 then ([], Execs)
            else
              (let tv = wait_timeout (time_limit cfg);
                   sig_ret = sigtimedwait_ret env;
                   waited = [Sigtimedwait (fst tv) (snd tv)]
               in if sig_ret <s 0 then
                    (if errno_is_EAGAIN env
                     then (waited @ [Kill_SIGKILL pid, Waitpid pid], Returns 2)
                     else (waited @ [Kill_SIGKILL pid, Waitpid pid], Returns 1))
                  else
                    (let status = child_status env;
                         wait_ret = waitpid_nohang_ret env
                     in if wait_ret = pid then
                          (waited @ [Waitpid_WNOHANG pid],
                           Returns (if WIFEXITED status
                                    then (if WEXITSTATUS status = 0 then 0 else 1)
                                    else 3))
                        else (waited @ [Waitpid_WNOHANG pid, Kill_SIGKILL pid], Returns 1))))))"

subsection \<open>Container-init: \<open>container_init\<close>\<close>

text \<open>
  The directories of the host are a set of paths. \<open>mkdir\<close> and \<open>rmdir\<close> change it
  when the environment lets them succeed; their return values are ignored by the source,
  as are those of the two \<open>umount\<close> calls between the two \<open>rmdir\<close> calls.

  The result pipe is made by the supervisor, which reads it only after container-init
  has ended (\<open>waitpid\<close> at line 482, the first read at line 490); container-init never
  closes its own copy of the reading end. So while container-init writes nothing is taken
  out of the pipe: it takes \<open>result_pipe_capacity\<close> bytes, a number fixed by the
  environment (at most 65536 for a pipe of the default size on Linux with pages of 4096
  bytes), and the \<open>write\<close> that would go beyond them never returns. Container-init
  then stays blocked with the pipe full: it neither returns nor throws.
\<close>

definition mkdir :: "(string \<Rightarrow> bool) \<Rightarrow> string \<Rightarrow> string set \<Rightarrow> string set" where
  "mkdir ok path dirs = (if ok path then insert path dirs else dirs)"

definition rmdir :: "(string \<Rightarrow> bool) \<Rightarrow> string \<Rightarrow> string set \<Rightarrow> string set" where
  "rmdir ok path dirs = (if ok path then dirs - {path} else dirs)"

record init_env =
  init_barrier_ok :: bool
  sethostname_ok :: bool
  mount_private_ok :: bool
  mkdir_ok :: "string \<Rightarrow> bool"
  mount_bind_ok :: bool
  mount_rdonly_ok :: bool
  mount_tmpfs_ok :: bool
  can_create :: "string \<Rightarrow> bool"
  can_fill :: "string \<Rightarrow> bool"
  pipe2_ok :: bool
  can_write :: "string \<Rightarrow> bool"
  clone_ret :: c_int
  exec_status :: c_int
  files_after :: "string \<Rightarrow> fnode"
  rmdir_ok :: "string \<Rightarrow> bool"
  pipe_faults :: "nat option list"
  result_pipe_capacity :: nat

datatype init_end = Init_returns c_int | Init_terminates exn | Init_blocks

record init_result =
  dirs_after :: "string set"
  result_pipe :: ostream
  init_end :: init_end

text \<open>Statements that write to a descriptor, run in order up to the first exception.\<close>

fun run_writes ::
    "(ostream \<Rightarrow> (exn + unit) \<times> ostream) list \<Rightarrow> ostream \<Rightarrow> (exn + unit) \<times> ostream" where
  "run_writes [] out = (Inr (), out)"
| "run_writes (w # ws) out =
     (case w out of
        (Inl e, out1) \<Rightarrow> (Inl e, out1)
      | (Inr u, out1) \<Rightarrow> run_writes ws out1)"

text \<open>
  The result frame, as \<open>container_init\<close> writes it on the result pipe (lines 393 to 404)
  and \<open>main\<close> on its standard output (lines 510 to 519): of each file the name and the
  content are written. In \<open>container_init\<close> the bytes of the frame are those that
  \<open>write_frame\<close> sends up to the first fault of the pipe; when they are more than the
  pipe holds, the \<open>write\<close> that reaches the capacity blocks before any later byte or
  fault.
\<close>

definition write_frame ::
    "c_int \<Rightarrow> c_int \<Rightarrow> c_llong \<Rightarrow> string \<Rightarrow> string \<Rightarrow> c_int \<Rightarrow> (string \<times> string) list
      \<Rightarrow> ostream \<Rightarrow> (exn + unit) \<times> ostream" where
  "write_frame v t m out_str err_str file_cnt files =
     run_writes
       ([write_full (int_bytes v),
         write_full (int_bytes t),
         write_full (llong_bytes m),
         write_proto_str out_str,
         write_proto_str err_str,
         write_full (int_bytes file_cnt)]
        @ concat (map (\<lambda>(name, buf). [write_proto_str name, write_proto_buf buf]) files))"

definition write_input_files ::
    "(string \<Rightarrow> bool) \<Rightarrow> (string \<Rightarrow> bool) \<Rightarrow> string \<Rightarrow> FileInfo list \<Rightarrow> bool" where
  "write_input_files cr fl tmp_path fs =
     list_all (\<lambda>f. write_bin_file cr fl (tmp_path @ ''/'' @ filename f) (content f) (mode f)
                     = Inr ()) fs"

definition restrict_resource :: "(string \<Rightarrow> bool) \<Rightarrow> JudgeConfig \<Rightarrow> string \<Rightarrow> exn + unit" where
  "restrict_resource cw cfg cgroup_path =
     (case write_file cw (cgroup_path @ ''/cpu.max'') ''100000 100000'' of
        Inl e \<Rightarrow> Inl e
      | Inr u \<Rightarrow>
     (case write_file cw (cgroup_path @ ''/pids.max'') (to_string (sint (pids_limit cfg))) of
        Inl e \<Rightarrow> Inl e
      | Inr u \<Rightarrow>
     (case write_file cw (cgroup_path @ ''/memory.max'')
             (to_string (sint (memory_limit cfg * 1024 * 1024))) of
        Inl e \<Rightarrow> Inl e
      | Inr u \<Rightarrow> write_file cw (cgroup_path @ ''/memory.swap.max'') ''0'')))"

definition container_init :: "init_env \<Rightarrow> JudgeConfig \<Rightarrow> string set \<Rightarrow> init_result" where
  "container_init env cfg dirs0 =
     (let pipe0 = \<lparr>written = [], faults = pipe_faults env\<rparr>;
          ends = (\<lambda>dirs e. \<lparr>dirs_after = dirs, result_pipe = pipe0, init_end = e\<rparr>)
      in
      if \<not> init_barrier_ok env then ends dirs0 (Init_returns 1)
      else if \<not> sethostname_ok env \<or> \<not> mount_private_ok env then ends dirs0 (Init_returns 1)
      else
       (let sandbox_root = ''/tmp/judger_sandbox_'' @ sandbox_id cfg;
            dirs1 = mkdir (mkdir_ok env) sandbox_root dirs0
        in
        if \<not> mount_bind_ok env \<or> \<not> mount_rdonly_ok env then ends dirs1 (Init_returns 1)
        else
         (let tmp_path = sandbox_root @ ''/tmp''
          in
          if \<not> mount_tmpfs_ok env then ends dirs1 (Init_returns 1)
          else if \<not> write_input_files (can_create env) (can_fill env) tmp_path (input_files cfg)
          then ends dirs1 (Init_returns 1)
          else
           (let cgroup_path = cgroup cfg @ ''/judge.'' @ sandbox_id cfg;
                dirs2 = mkdir (mkdir_ok env) cgroup_path dirs1
            in
            if \<not> pipe2_ok env then ends dirs2 (Init_returns 1)
            else if restrict_resource (can_write env) cfg cgroup_path \<noteq> Inr ()
            then ends dirs2 (Init_returns 1)
            else
             (let exec_pid = clone_ret env
              in
              if exec_pid <s 0 then ends dirs2 (Init_returns 1)
              else
               (case write_file (can_write env) (cgroup_path @ ''/cgroup.procs'')
                       (to_string (sint exec_pid)) of
                  Inl e \<Rightarrow> ends dirs2 (Init_terminates e)
                | Inr u \<Rightarrow>
               (case collect_result (files_after env) cfg (exec_status env)
                       cgroup_path tmp_path of
                  Inl e \<Rightarrow> ends dirs2 (Init_terminates e)
                | Inr res \<Rightarrow>
                 (let dirs3 = rmdir (rmdir_ok env) cgroup_path dirs2;
                      dirs4 = rmdir (rmdir_ok env) sandbox_root dirs3;
                      file_cnt = (of_nat (length (output_files res)) :: c_int)
                  in
                  (case write_frame (verdict_int (verdict res)) (time res) (memory res)
                          (stdout_content res) (stderr_content res) file_cnt
                          (map (\<lambda>f. (filename f, content f)) (output_files res)) pipe0 of
                     (r, p) \<Rightarrow>
                       if result_pipe_capacity env < length (written p) then
                         \<lparr>dirs_after = dirs4,
                          result_pipe = p\<lparr>written := take (result_pipe_capacity env) (written p)\<rparr>,
                          init_end = Init_blocks\<rparr>
                       else
                         (case r of
                            Inl e \<Rightarrow>
                              \<lparr>dirs_after = dirs4, result_pipe = p,
                               init_end = Init_terminates e\<rparr>
                          | Inr u \<Rightarrow>
                              \<lparr>dirs_after = dirs4, result_pipe = p,
                               init_end = Init_returns 0\<rparr>))))))))))"

subsection \<open>The supervisor: \<open>main\<close>\<close>

text \<open>
  Reading is sequenced with \<open>bindE\<close>: the first exception ends the sequence. A loop
  \<open>for (int i = 0; i < count; ++i)\<close> runs \<open>loop_count count\<close> times, none when
  \<open>count\<close> is not positive. \<open>resize(sz)\<close> of a vector with a negative \<open>sz\<close> throws
  \<open>length_error\<close>.
\<close>

definition bindE :: "exn + 'a \<Rightarrow> ('a \<Rightarrow> exn + 'b) \<Rightarrow> exn + 'b" where
  "bindE m f = (case m of Inl e \<Rightarrow> Inl e | Inr x \<Rightarrow> f x)"

definition loop_count :: "c_int \<Rightarrow> nat" where
  "loop_count count = (if 0 <s count then unat count else 0)"

primrec read_strs :: "nat \<Rightarrow> istream \<Rightarrow> exn + (string list \<times> istream)" where
  "read_strs 0 s = Inr ([], s)"
| "read_strs (Suc n) s =
     bindE (read_proto_str s) (\<lambda>(x, s1).
     bindE (read_strs n s1) (\<lambda>(xs, s2).
     Inr (x # xs, s2)))"

definition read_proto_buf :: "istream \<Rightarrow> exn + (string \<times> istream)" where
  "read_proto_buf s =
     bindE (read_int s) (\<lambda>(sz, s1).
     if sz <s 0 then Inl (length_error ''vector::_M_default_append'')
     else if 0 <s sz then read_full (unat sz) s1
     else Inr ([], s1))"

definition read_input_file :: "istream \<Rightarrow> exn + (FileInfo \<times> istream)" where
  "read_input_file s =
     bindE (read_proto_str s) (\<lambda>(name, s1).
     bindE (read_proto_buf s1) (\<lambda>(buf, s2).
     bindE (read_int s2) (\<lambda>(md, s3).
     Inr (\<lparr>filename = name, content = buf, mode = md\<rparr>, s3))))"

primrec read_input_files :: "nat \<Rightarrow> istream \<Rightarrow> exn + (FileInfo list \<times> istream)" where
  "read_input_files 0 s = Inr ([], s)"
| "read_input_files (Suc n) s =
     bindE (read_input_file s) (\<lambda>(x, s1).
     bindE (read_input_files n s1) (\<lambda>(xs, s2).
     Inr (x # xs, s2)))"

definition read_config :: "istream \<Rightarrow> exn + (JudgeConfig \<times> istream)" where
  "read_config s0 =
     bindE (read_int s0) (\<lambda>(tlim, s1).
     bindE (read_llong s1) (\<lambda>(mlim, s2).
     bindE (read_int s2) (\<lambda>(plim, s3).
     bindE (read_proto_str s3) (\<lambda>(root, s4).
     bindE (read_proto_str s4) (\<lambda>(tsize, s5).
     bindE (read_proto_str s5) (\<lambda>(cg, s6).
     bindE (read_proto_str s6) (\<lambda>(sid, s7).
     bindE (read_proto_str s7) (\<lambda>(sin, s8).
     bindE (read_int s8) (\<lambda>(count1, s9).
     bindE (read_strs (loop_count count1) s9) (\<lambda>(cmd, s10).
     bindE (read_int s10) (\<lambda>(count2, s11).
     bindE (read_input_files (loop_count count2) s11) (\<lambda>(ins, s12).
     bindE (read_int s12) (\<lambda>(count3, s13).
     bindE (read_strs (loop_count count3) s13) (\<lambda>(outs, s14).
     Inr (\<lparr>time_limit = tlim, memory_limit = mlim, pids_limit = plim, rootfs = root,
            tmpfs_size = tsize, cgroup = cg, sandbox_id = sid, stdin_content = sin,
            cmdline = cmd, input_files = ins, output_filenames = outs\<rparr>, s14)))))))))))))))"

text \<open>
  Of a file of the result \<open>main\<close> reads the name and the content; the \<open>mode\<close> of its
  \<open>FileInfo\<close> is never assigned and never used, so the embedding keeps the pair.
\<close>

definition read_output_file :: "istream \<Rightarrow> exn + ((string \<times> string) \<times> istream)" where
  "read_output_file s =
     bindE (read_proto_str s) (\<lambda>(name, s1).
     bindE (read_proto_buf s1) (\<lambda>(buf, s2).
     Inr ((name, buf), s2)))"

primrec read_output_files ::
    "nat \<Rightarrow> istream \<Rightarrow> exn + ((string \<times> string) list \<times> istream)" where
  "read_output_files 0 s = Inr ([], s)"
| "read_output_files (Suc n) s =
     bindE (read_output_file s) (\<lambda>(x, s1).
     bindE (read_output_files n s1) (\<lambda>(xs, s2).
     Inr (x # xs, s2)))"

record frame =
  fr_verdict :: c_int
  fr_time :: c_int
  fr_memory :: c_llong
  fr_stdout :: string
  fr_stderr :: string
  fr_file_cnt :: c_int
  fr_files :: "(string \<times> string) list"

definition read_frame :: "istream \<Rightarrow> exn + (frame \<times> istream)" where
  "read_frame s0 =
     bindE (read_int s0) (\<lambda>(v, s1).
     bindE (read_int s1) (\<lambda>(t, s2).
     bindE (read_llong s2) (\<lambda>(m, s3).
     bindE (read_proto_str s3) (\<lambda>(out_str, s4).
     bindE (read_proto_str s4) (\<lambda>(err_str, s5).
     bindE (read_int s5) (\<lambda>(cnt, s6).
     bindE (read_output_files (loop_count cnt) s6) (\<lambda>(fs, s7).
     Inr (\<lparr>fr_verdict = v, fr_time = t, fr_memory = m, fr_stdout = out_str,
            fr_stderr = err_str, fr_file_cnt = cnt, fr_files = fs\<rparr>, s7))))))))"

text \<open>
  The environment of the supervisor: the bytes on its standard input, the outcome of its
  system calls, the environment of container-init and the directories of the host, and
  the faults of its standard output. Container-init runs once the barrier is released;
  the supervisor waits for it to end (line 482) and only then reads what container-init
  has written on the result pipe. When container-init is blocked on the full pipe the
  wait never returns: the \<open>try\<close> block then has no end, which is the value \<open>None\<close>,
  and \<open>main\<close> writes nothing and never exits (\<open>Waits_forever\<close>).
\<close>

record super_env =
  stdin_bytes :: string
  child_pipe_ok :: bool
  result_pipe_ok :: bool
  ns_pid :: c_int
  proc_writable :: "string \<Rightarrow> bool"
  host_uid :: c_int
  host_gid :: c_int
  init :: init_env
  host_dirs :: "string set"
  stdout_faults :: "nat option list"

datatype super_end = Exit c_int | Terminate exn | Waits_forever

definition write_id_maps :: "super_env \<Rightarrow> exn + unit" where
  "write_id_maps env =
     (let proc = ''/proc/'' @ to_string (sint (ns_pid env));
          uid_map = proc @ ''/uid_map'';
          gid_map = proc @ ''/gid_map''
      in bindE (write_file (proc_writable env) (proc @ ''/setgroups'') ''deny'') (\<lambda>u.
         bindE (write_file (proc_writable env) uid_map
                  (''0 '' @ to_string (uint (host_uid env)) @ '' 1'')) (\<lambda>u.
         write_file (proc_writable env) gid_map
                  (''0 '' @ to_string (uint (host_gid env)) @ '' 1''))))"

definition try_block ::
    "super_env \<Rightarrow> ostream \<Rightarrow> ((exn + unit) \<times> ostream) option" where
  "try_block env out =
     (case read_config \<lparr>pending = stdin_bytes env, calls = []\<rparr> of
        Inl e \<Rightarrow> Some (Inl e, out)
      | Inr (cfg, rest) \<Rightarrow>
          if \<not> child_pipe_ok env then Some (Inl (runtime_error ''pipe''), out)
          else if \<not> result_pipe_ok env then Some (Inl (runtime_error ''pipe''), out)
          else if ns_pid env <s 0 then Some (Inl (runtime_error ''clone failed''), out)
          else
            (case write_id_maps env of
               Inl e \<Rightarrow> Some (Inl e, out)
             | Inr u \<Rightarrow>
                (let p1 = container_init (init env) cfg (host_dirs env)
                 in if init_end p1 = Init_blocks then None
                    else
                     (case read_frame \<lparr>pending = written (result_pipe p1), calls = []\<rparr> of
                        Inl e \<Rightarrow> Some (Inl e, out)
                      | Inr (fr, rest') \<Rightarrow>
                          Some (write_frame (fr_verdict fr) (fr_time fr) (fr_memory fr)
                                  (fr_stdout fr) (fr_stderr fr) (fr_file_cnt fr) (fr_files fr)
                                  out)))))"

definition catch_block :: "exn \<Rightarrow> ostream \<Rightarrow> (exn + unit) \<times> ostream" where
  "catch_block e out =
     (let v = verdict_int VERDICT_UKE;
          t = (0 :: c_int);
          m = (0 :: c_llong);
          msg = ''Internal Error: '' @ what e;
          zero = (0 :: c_int)
      in run_writes
           [write_full (int_bytes v),
            write_full (int_bytes t),
            write_full (llong_bytes m),
            write_proto_str [],
            write_proto_str msg,
            write_full (int_bytes zero)] out)"

definition main :: "super_env \<Rightarrow> string \<times> super_end" where
  "main env =
     (case try_block env \<lparr>written = [], faults = stdout_faults env\<rparr> of
        None \<Rightarrow> ([], Waits_forever)
      | Some (Inr u, out1) \<Rightarrow> (written out1, Exit 0)
      | Some (Inl e, out1) \<Rightarrow>
          (case catch_block e out1 of
             (Inr u, out2) \<Rightarrow> (written out2, Exit 1)
           | (Inl e', out2) \<Rightarrow> (written out2, Terminate e')))"

subsection \<open>The frames in the words of the specification\<close>

text \<open>
  The layouts of section 6 of the specification, for comparison with what the code reads
  and writes: a string or buffer is its length as a 32-bit little-endian integer followed
  by its bytes; the request and the response are their fields in order. An entry of the
  response's outputs is a name and a content.
\<close>

definition proto_bytes :: "string \<Rightarrow> string" where
  "proto_bytes s = int_bytes (of_nat (length s)) @ s"

definition response_bytes :: "frame \<Rightarrow> string" where
  "response_bytes fr =
     int_bytes (fr_verdict fr) @ int_bytes (fr_time fr) @ llong_bytes (fr_memory fr)
     @ proto_bytes (fr_stdout fr) @ proto_bytes (fr_stderr fr)
     @ int_bytes (fr_file_cnt fr)
     @ concat (map (\<lambda>(name, buf). proto_bytes name @ proto_bytes buf) (fr_files fr))"

definition input_file_bytes :: "FileInfo \<Rightarrow> string" where
  "input_file_bytes f = proto_bytes (filename f) @ proto_bytes (content f) @ int_bytes (mode f)"

definition request_bytes :: "JudgeConfig \<Rightarrow> string" where
  "request_bytes cfg =
     int_bytes (time_limit cfg) @ llong_bytes (memory_limit cfg) @ int_bytes (pids_limit cfg)
     @ proto_bytes (rootfs cfg) @ proto_bytes (tmpfs_size cfg) @ proto_bytes (cgroup cfg)
     @ proto_bytes (sandbox_id cfg) @ proto_bytes (stdin_content cfg)
     @ int_bytes (of_nat (length (cmdline cfg))) @ concat (map proto_bytes (cmdline cfg))
     @ int_bytes (of_nat (length (input_files cfg)))
     @ concat (map input_file_bytes (input_files cfg))
     @ int_bytes (of_nat (length (output_filenames cfg)))
     @ concat (map proto_bytes (output_filenames cfg))"




subsection \<open>The steps of container-init, as conditions on its environment\<close>

text \<open>
  Three conditions name the steps that \<open>container_init\<close> takes before it collects the
  result, in the order of the source: the barrier and the namespace (lines 277 to 286);
  the mounts and the input files, after the scratch directory is made (lines 291 to 308);
  the pipe, the limits, the executor and its cgroup, after the cgroup directory is made
  (lines 314 to 339). Each says that every call of its lines succeeds.
\<close>

definition namespace_ready :: "init_env \<Rightarrow> bool" where
  "namespace_ready env \<longleftrightarrow>
     init_barrier_ok env \<and> sethostname_ok env \<and> mount_private_ok env"

definition scratch_ready :: "init_env \<Rightarrow> JudgeConfig \<Rightarrow> bool" where
  "scratch_ready env cfg \<longleftrightarrow>
     mount_bind_ok env \<and> mount_rdonly_ok env \<and> mount_tmpfs_ok env
     \<and> write_input_files (can_create env) (can_fill env)
         ((''/tmp/judger_sandbox_'' @ sandbox_id cfg) @ ''/tmp'') (input_files cfg)"

definition executor_started :: "init_env \<Rightarrow> JudgeConfig \<Rightarrow> bool" where
  "executor_started env cfg \<longleftrightarrow>
     pipe2_ok env
     \<and> restrict_resource (can_write env) cfg (cgroup cfg @ ''/judge.'' @ sandbox_id cfg) = Inr ()
     \<and> \<not> clone_ret env <s 0
     \<and> write_file (can_write env) ((cgroup cfg @ ''/judge.'' @ sandbox_id cfg) @ ''/cgroup.procs'')
         (to_string (sint (clone_ret env))) = Inr ()"


subsection \<open>Example runs\<close>

text \<open>
  A request with a limit of one second and one output file, and environments in which
  every system call succeeds: the program exits with code 0 before the deadline and leaves
  the given files behind. The result pipe takes the 65536 bytes of a default pipe.
\<close>

definition example_cfg :: JudgeConfig where
  "example_cfg =
     \<lparr>time_limit = 1000, memory_limit = 64, pids_limit = 16, rootfs = ''/rootfs'',
      tmpfs_size = ''64M'', cgroup = ''/cg'', sandbox_id = ''x'', stdin_content = [],
      cmdline = [''/bin/true''], input_files = [], output_filenames = [''a'']\<rparr>"

definition example_exec_env :: exec_env where
  "example_exec_env =
     \<lparr>chdir_ok = True, stdin_writable = True, barrier_read = 1, sigprocmask_ret = 0,
      fork_ret = 5, sigtimedwait_ret = 17, errno_is_EAGAIN = False,
      waitpid_nohang_ret = 5, child_status = 0\<rparr>"

definition example_files :: "string \<Rightarrow> string \<Rightarrow> string \<Rightarrow> fnode" where
  "example_files cpu_stat mem_events path =
     (if path = ''/cg/judge.x/cpu.stat'' then regular cpu_stat
      else if path = ''/cg/judge.x/memory.peak'' then regular ''3145728\<newline>''
      else if path = ''/cg/judge.x/memory.events'' then regular mem_events
      else if path = ''/tmp/judger_sandbox_x/tmp/stdout'' then regular ''hi''
      else if path = ''/tmp/judger_sandbox_x/tmp/a'' then regular ''xy''
      else NoOpen)"

definition cpu_stat_2000ms :: string where
  "cpu_stat_2000ms = ''usage_usec 2500000\<newline>user_usec 2000000\<newline>''"

definition cpu_stat_500ms :: string where
  "cpu_stat_500ms = ''usage_usec 2500000\<newline>user_usec 500000\<newline>''"

definition cpu_stat_50days :: string where
  "cpu_stat_50days = ''usage_usec 4294967296000\<newline>user_usec 4294967296000\<newline>''"

definition events_oom :: string where
  "events_oom = ''low 0\<newline>oom_kill 1\<newline>''"

definition events_calm :: string where
  "events_calm = ''low 0\<newline>oom_kill 0\<newline>''"

definition example_init_env :: init_env where
  "example_init_env =
     \<lparr>init_barrier_ok = True, sethostname_ok = True, mount_private_ok = True,
      mkdir_ok = (\<lambda>p. True), mount_bind_ok = True, mount_rdonly_ok = True,
      mount_tmpfs_ok = True, can_create = (\<lambda>p. True), can_fill = (\<lambda>p. True),
      pipe2_ok = True, can_write = (\<lambda>p. True), clone_ret = 7, exec_status = 0,
      files_after = example_files cpu_stat_500ms events_calm, rmdir_ok = (\<lambda>p. True),
      pipe_faults = [], result_pipe_capacity = 65536\<rparr>"

definition example_super_env :: super_env where
  "example_super_env =
     \<lparr>stdin_bytes = request_bytes example_cfg, child_pipe_ok = True, result_pipe_ok = True,
      ns_pid = 6, proc_writable = (\<lambda>p. True), host_uid = 1000, host_gid = 1000,
      init = example_init_env, host_dirs = {}, stdout_faults = []\<rparr>"




definition example_dir_env :: init_env where
  "example_dir_env =
     example_init_env
       \<lparr>files_after := (example_files cpu_stat_500ms events_calm)
          (''/tmp/judger_sandbox_x/tmp/a'' := Opens 0x7FFFFFFFFFFFFFFF False [])\<rparr>"
section \<open>Properties\<close>

subsection \<open>The codec\<close>

lemma length_le_bytes: "length (le_bytes n v) = n"
  by (induction n arbitrary: v) auto

lemma le_val_le_bytes: "le_val (le_bytes n v) = v mod 256 ^ n"
  by (induction n arbitrary: v) (simp_all add: mod_mult2_eq)

lemma length_int_bytes: "length (int_bytes w) = 4"
  by (simp add: int_bytes_def length_le_bytes)

lemma length_llong_bytes: "length (llong_bytes w) = 8"
  by (simp add: llong_bytes_def length_le_bytes)

lemma int_bytes_not_Nil: "int_bytes w \<noteq> []"
  using length_int_bytes [of w] by auto

lemma llong_bytes_not_Nil: "llong_bytes w \<noteq> []"
  using length_llong_bytes [of w] by auto

lemma bytes_int_int_bytes: "bytes_int (int_bytes w) = w"
proof -
  have "unat w < 2 ^ 32"
    using unsigned_less [of w] by simp
  then have "unat w mod 256 ^ 4 = unat w"
    by simp
  then show ?thesis
    by (simp add: bytes_int_def int_bytes_def le_val_le_bytes)
qed

lemma bytes_llong_llong_bytes: "bytes_llong (llong_bytes w) = w"
proof -
  have "unat w < 2 ^ 64"
    using unsigned_less [of w] by simp
  then have "unat w mod 256 ^ 8 = unat w"
    by simp
  then show ?thesis
    by (simp add: bytes_llong_def llong_bytes_def le_val_le_bytes)
qed

lemma read_int_int_bytes:
  "read_int \<lparr>pending = int_bytes w @ rest, calls = cs\<rparr>
     = Inr (w, \<lparr>pending = rest, calls = cs @ [4]\<rparr>)"
  by (simp add: read_int_def read_full_def length_int_bytes bytes_int_int_bytes)

lemma read_llong_llong_bytes:
  "read_llong \<lparr>pending = llong_bytes w @ rest, calls = cs\<rparr>
     = Inr (w, \<lparr>pending = rest, calls = cs @ [8]\<rparr>)"
  by (simp add: read_llong_def read_full_def length_llong_bytes bytes_llong_llong_bytes)

lemma small_len_unat: "n < 2 ^ 31 \<Longrightarrow> unat (of_nat n :: c_int) = n"
  by (simp add: unat_of_nat)

lemma small_len_sint: "n < 2 ^ 31 \<Longrightarrow> sint (of_nat n :: c_int) = int n"
  by (simp add: signed_of_nat signed_take_bit_int_eq_self)

lemma small_len_pos: "n < 2 ^ 31 \<Longrightarrow> (0 <s (of_nat n :: c_int)) = (0 < n)"
  by (simp add: word_sless_alt small_len_sint)

lemma small_len_not_neg: "n < 2 ^ 31 \<Longrightarrow> \<not> (of_nat n :: c_int) <s 0"
  by (simp add: word_sless_alt small_len_sint)

lemma small_len_zero:
  assumes "n < 2 ^ 31"
  shows "((of_nat n :: c_int) = 0) = (n = 0)"
proof
  assume "(of_nat n :: c_int) = 0"
  then have "unat (of_nat n :: c_int) = 0"
    by simp
  with assms show "n = 0"
    by (simp add: small_len_unat)
next
  assume "n = 0"
  then show "(of_nat n :: c_int) = 0"
    by simp
qed

lemma write_proto_str_ok:
  assumes "length s < 2 ^ 31"
  shows "write_proto_str s \<lparr>written = w, faults = []\<rparr>
           = (Inr (), \<lparr>written = w @ int_bytes (of_nat (length s)) @ s, faults = []\<rparr>)"
  using assms
  by (simp add: write_proto_str_def write_full_def Let_def small_len_pos small_len_unat
      int_bytes_not_Nil)

lemma write_proto_buf_ok:
  assumes "length s < 2 ^ 31"
  shows "write_proto_buf s \<lparr>written = w, faults = []\<rparr>
           = (Inr (), \<lparr>written = w @ int_bytes (of_nat (length s)) @ s, faults = []\<rparr>)"
  using assms
  by (simp add: write_proto_buf_def write_full_def Let_def small_len_pos small_len_unat
      int_bytes_not_Nil)

lemma read_proto_str_encoded:
  assumes "length s < 2 ^ 31"
  shows "read_proto_str \<lparr>pending = int_bytes (of_nat (length s)) @ s @ rest, calls = cs\<rparr>
           = Inr (s, \<lparr>pending = rest,
                        calls = cs @ (if s = [] then [4] else [4, length s])\<rparr>)"
  using assms
  by (simp add: read_proto_str_def read_int_int_bytes small_len_zero small_len_not_neg
      small_len_unat read_full_def)

lemma int_bytes_0: "int_bytes 0 = [CHR 0x00, CHR 0x00, CHR 0x00, CHR 0x00]"
  by code_simp

text \<open>
  Claim C10. A string whose length fits in a non-negative 32-bit \<open>int\<close>, sent with
  \<open>write_proto_str\<close> on a descriptor that accepts every write, is received unchanged by
  \<open>read_proto_str\<close>, which leaves the bytes that follow untouched. The empty string is
  sent as the four zero bytes of its length and nothing else, and is received with the one
  4-byte read of the length, also when the stream ends right after it.
\<close>

theorem proto_str_roundtrip:
  assumes "length s < 2 ^ 31"
  shows "fst (write_proto_str s \<lparr>written = [], faults = []\<rparr>) = Inr ()
       \<and> read_proto_str
           \<lparr>pending = written (snd (write_proto_str s \<lparr>written = [], faults = []\<rparr>)) @ rest,
            calls = []\<rparr>
         = Inr (s, \<lparr>pending = rest, calls = (if s = [] then [4] else [4, length s])\<rparr>)
       \<and> written (snd (write_proto_str [] \<lparr>written = [], faults = []\<rparr>))
         = [CHR 0x00, CHR 0x00, CHR 0x00, CHR 0x00]
       \<and> read_proto_str \<lparr>pending = [CHR 0x00, CHR 0x00, CHR 0x00, CHR 0x00], calls = []\<rparr>
         = Inr ([], \<lparr>pending = [], calls = [4]\<rparr>)"
proof -
  have w: "write_proto_str s \<lparr>written = [], faults = []\<rparr>
        = (Inr (), \<lparr>written = int_bytes (of_nat (length s)) @ s, faults = []\<rparr>)"
    using write_proto_str_ok [OF assms, of "[]"] by simp
  have r: "read_proto_str \<lparr>pending = (int_bytes (of_nat (length s)) @ s) @ rest, calls = []\<rparr>
        = Inr (s, \<lparr>pending = rest, calls = (if s = [] then [4] else [4, length s])\<rparr>)"
    using read_proto_str_encoded [OF assms, of rest "[]"] by simp
  have w0: "write_proto_str [] \<lparr>written = [], faults = []\<rparr>
        = (Inr (), \<lparr>written = int_bytes 0, faults = []\<rparr>)"
    using write_proto_str_ok [of "[]" "[]"] by simp
  have r0: "read_proto_str \<lparr>pending = int_bytes 0, calls = []\<rparr>
        = Inr ([], \<lparr>pending = [], calls = [4]\<rparr>)"
    using read_proto_str_encoded [of "[]" "[]" "[]"] by simp
  show ?thesis
    using w r w0 r0 by (simp add: int_bytes_0)
qed

theorem proto_str_roundtrip_witness:
  "length ''ok'' < (2::nat) ^ 31
   \<and> read_proto_str
       \<lparr>pending = written (snd (write_proto_str ''ok'' \<lparr>written = [], faults = []\<rparr>)) @ ''zz'',
        calls = []\<rparr>
     = Inr (''ok'', \<lparr>pending = ''zz'', calls = [4, 2]\<rparr>)"
  using proto_str_roundtrip [of "''ok''" "''zz''"] by simp

subsection \<open>Arithmetic of machine integers\<close>

lemma sdiv_nonneg: "0 \<le> a \<Longrightarrow> 0 < b \<Longrightarrow> (a::int) sdiv b = a div b"
  by (auto simp: signed_divide_int_eq_divide_int sgn_if)

lemma smod_nonneg: "0 \<le> a \<Longrightarrow> 0 < b \<Longrightarrow> (a::int) smod b = a mod b"
  by (auto simp: signed_modulo_int_eq_modulo_int sgn_if)

lemma sint_llong_of_int: "- (2 ^ 63) \<le> a \<Longrightarrow> a < 2 ^ 63 \<Longrightarrow> sint (word_of_int a :: c_llong) = a"
  by (simp add: signed_of_int signed_take_bit_int_eq_self)

lemma sint_int_of_int: "- (2 ^ 31) \<le> a \<Longrightarrow> a < 2 ^ 31 \<Longrightarrow> sint (word_of_int a :: c_int) = a"
  by (simp add: signed_of_int signed_take_bit_int_eq_self)

lemma sint_llong_bounds: "- (2 ^ 63) \<le> sint (w :: c_llong) \<and> sint w < 2 ^ 63"
  using sint_ge [of w] sint_lt [of w] by simp

lemma sint_int_bounds: "- (2 ^ 31) \<le> sint (w :: c_int) \<and> sint w < 2 ^ 31"
  using sint_ge [of w] sint_lt [of w] by simp

lemma c_div_llong_nonneg:
  assumes "0 \<le> sint (a :: c_llong)" and "0 < sint b"
  shows "sint (c_div a b) = sint a div sint b"
proof -
  have "sint a div sint b \<le> sint a"
    using assms by (smt (verit) div_by_1 zdiv_mono2)
  moreover have "0 \<le> sint a div sint b"
    using assms by (simp add: pos_imp_zdiv_nonneg_iff)
  moreover have "sint a < 2 ^ 63"
    using sint_llong_bounds [of a] by simp
  ultimately show ?thesis
    using assms by (simp add: c_div_def sdiv_nonneg sint_llong_of_int)
qed

lemma c_div_int_nonneg:
  assumes "0 \<le> sint (a :: c_int)" and "0 < sint b"
  shows "sint (c_div a b) = sint a div sint b"
proof -
  have "sint a div sint b \<le> sint a"
    using assms by (smt (verit) div_by_1 zdiv_mono2)
  moreover have "0 \<le> sint a div sint b"
    using assms by (simp add: pos_imp_zdiv_nonneg_iff)
  moreover have "sint a < 2 ^ 31"
    using sint_int_bounds [of a] by simp
  ultimately show ?thesis
    using assms by (simp add: c_div_def sdiv_nonneg sint_int_of_int)
qed

lemma c_mod_int_nonneg:
  assumes "0 \<le> sint (a :: c_int)" and "0 < sint b"
  shows "sint (c_mod a b) = sint a mod sint b"
proof -
  have lt: "sint a mod sint b < sint b" and ge: "0 \<le> sint a mod sint b"
    using assms by simp_all
  have "sint b < 2 ^ 31"
    using sint_int_bounds [of b] by simp
  with lt ge have "sint (word_of_int (sint a mod sint b) :: c_int) = sint a mod sint b"
    by (intro sint_int_of_int) linarith+
  then show ?thesis
    using assms by (simp add: c_mod_def smod_nonneg)
qed

lemma sint_1000: "sint (1000 :: c_int) = 1000" "sint (1000 :: c_llong) = 1000" "sint (1024 :: c_llong) = 1024"
  by simp_all

subsection \<open>The executor\<close>

lemma sint_scast_up: "sint (scast (w :: c_int) :: c_llong) = sint w"
  by (rule sint_up_scast) (simp add: is_up)

lemma sint_add_EXTRA_TIME:
  assumes "0 \<le> sint (x :: c_int)" and "sint x \<le> 2 ^ 31 - 1001"
  shows "sint (x + EXTRA_TIME) = sint x + 1000"
proof -
  have "sint (x + 1000) = signed_take_bit 31 (sint x + sint (1000 :: c_int))"
    by (simp add: sint_word_ariths)
  also have "\<dots> = sint x + 1000"
    using assms by (simp add: signed_take_bit_int_eq_self)
  finally show ?thesis
    by (simp add: EXTRA_TIME_def)
qed

lemma sint_mult_million:
  assumes "0 \<le> sint (r :: c_int)" and "sint r < 1000"
  shows "sint (r * 1000000) = sint r * 1000000"
proof -
  have "sint (r * 1000000) = signed_take_bit 31 (sint r * sint (1000000 :: c_int))"
    by (simp add: sint_word_ariths)
  also have "\<dots> = sint r * 1000000"
    using assms by (simp add: signed_take_bit_int_eq_self)
  finally show ?thesis .
qed

lemma wait_timeout_value:
  assumes "0 \<le> sint limit" and "sint limit \<le> 2 ^ 31 - 1001"
  shows "sint (fst (wait_timeout limit)) = (sint limit + 1000) div 1000"
    and "sint (snd (wait_timeout limit)) = ((sint limit + 1000) mod 1000) * 1000000"
proof -
  let ?ms = "limit + EXTRA_TIME"
  have ms: "sint ?ms = sint limit + 1000"
    using assms by (rule sint_add_EXTRA_TIME)
  then have nonneg: "0 \<le> sint ?ms"
    using assms by simp
  have q: "sint (c_div ?ms 1000) = (sint limit + 1000) div 1000"
    using c_div_int_nonneg [OF nonneg, of 1000] ms by simp
  have r: "sint (c_mod ?ms 1000) = (sint limit + 1000) mod 1000"
    using c_mod_int_nonneg [OF nonneg, of 1000] ms by simp
  have "0 \<le> sint (c_mod ?ms 1000)" and "sint (c_mod ?ms 1000) < 1000"
    unfolding r by simp_all
  then have "sint (c_mod ?ms 1000 * 1000000) = sint (c_mod ?ms 1000) * 1000000"
    by (rule sint_mult_million)
  with r show "sint (snd (wait_timeout limit)) = ((sint limit + 1000) mod 1000) * 1000000"
    by (simp add: wait_timeout_def Let_def sint_scast_up)
  from q show "sint (fst (wait_timeout limit)) = (sint limit + 1000) div 1000"
    by (simp add: wait_timeout_def Let_def sint_scast_up)
qed

lemma executor_timed_wait:
  assumes "Sigtimedwait sec nsec \<in> set (fst (sandbox_executor env cfg))"
  shows "sec = fst (wait_timeout (time_limit cfg))"
    and "nsec = snd (wait_timeout (time_limit cfg))"
  using assms
  by (auto simp: sandbox_executor_def Let_def split: if_splits sum.splits)

text \<open>
  Claim C7, as amended. For every \<open>time_limit\<close> from 0 to \<open>2^31 - 1001\<close> the timeout
  that the executor passes to \<open>sigtimedwait\<close> is \<open>time_limit + 1000\<close> milliseconds:
  \<open>tv_sec\<close> is \<open>(time_limit + 1000) div 1000\<close> and \<open>tv_nsec\<close> is
  \<open>((time_limit + 1000) mod 1000) * 10^6\<close>. For the 1000 larger values the
  addition of \<open>EXTRA_TIME\<close> leaves the range of \<open>int\<close>.
\<close>

theorem executor_timeout:
  assumes "0 \<le> sint (time_limit cfg)" and "sint (time_limit cfg) \<le> 2 ^ 31 - 1001"
    and "Sigtimedwait sec nsec \<in> set (fst (sandbox_executor env cfg))"
  shows "sint sec = (sint (time_limit cfg) + 1000) div 1000
       \<and> sint nsec = ((sint (time_limit cfg) + 1000) mod 1000) * 10 ^ 6
       \<and> sint sec * 1000 + sint nsec div 10 ^ 6 = sint (time_limit cfg) + 1000"
proof -
  have sec: "sint sec = (sint (time_limit cfg) + 1000) div 1000"
    using executor_timed_wait(1) [OF assms(3)] wait_timeout_value(1) [OF assms(1,2)] by simp
  have nsec: "sint nsec = ((sint (time_limit cfg) + 1000) mod 1000) * 10 ^ 6"
    using executor_timed_wait(2) [OF assms(3)] wait_timeout_value(2) [OF assms(1,2)] by simp
  have "sint nsec div 10 ^ 6 = (sint (time_limit cfg) + 1000) mod 1000"
    unfolding nsec by simp
  then have "sint sec * 1000 + sint nsec div 10 ^ 6
      = (sint (time_limit cfg) + 1000) div 1000 * 1000 + (sint (time_limit cfg) + 1000) mod 1000"
    using sec by simp
  also have "\<dots> = sint (time_limit cfg) + 1000"
    by (rule div_mult_mod_eq)
  finally show ?thesis
    using sec nsec by simp
qed

lemma wait_timeout_1000: "wait_timeout 1000 = (2, 0)"
  by (simp add: wait_timeout_def EXTRA_TIME_def c_div_def c_mod_def Let_def)

lemma wait_timeout_max: "wait_timeout 2147483647 = (- 2147482, - 649000000)"
  by (simp add: wait_timeout_def EXTRA_TIME_def c_div_def c_mod_def Let_def
      signed_divide_int_def signed_modulo_int_def)

lemma example_executor_run:
  "sandbox_executor example_exec_env example_cfg
     = ([Sigtimedwait 2 0, Waitpid_WNOHANG 5], Returns 0)"
  by (simp add: sandbox_executor_def example_exec_env_def example_cfg_def write_file_def
      wait_timeout_1000 Let_def WIFEXITED_def WEXITSTATUS_def word_sless_alt word_sle_eq)

theorem executor_timeout_witness:
  "0 \<le> sint (time_limit example_cfg) \<and> sint (time_limit example_cfg) \<le> 2 ^ 31 - 1001
   \<and> Sigtimedwait 2 0 \<in> set (fst (sandbox_executor example_exec_env example_cfg))
   \<and> sint (2 :: c_llong) = (sint (time_limit example_cfg) + 1000) div 1000
   \<and> sint (0 :: c_llong) = ((sint (time_limit example_cfg) + 1000) mod 1000) * 10 ^ 6"
proof -
  have a: "0 \<le> sint (time_limit example_cfg)"
    and b: "sint (time_limit example_cfg) \<le> 2 ^ 31 - 1001"
    by (simp_all add: example_cfg_def)
  have c: "Sigtimedwait 2 0 \<in> set (fst (sandbox_executor example_exec_env example_cfg))"
    by (simp add: example_executor_run)
  show ?thesis
    using a b c executor_timeout [OF a b c] by simp
qed

text \<open>
  Claim C7 fails as it stands: with \<open>time_limit = 2147483647\<close>, a non-negative
  \<open>int\<close>, the sum \<open>time_limit + EXTRA_TIME\<close> wraps around and the executor passes
  \<open>tv_sec = -2147482\<close> and \<open>tv_nsec = -649000000\<close>, not 2147484 seconds and
  647000000 nanoseconds.
\<close>

theorem executor_timeout_counterexample:
  "sandbox_executor example_exec_env (example_cfg\<lparr>time_limit := 2147483647\<rparr>)
     = ([Sigtimedwait (- 2147482) (- 649000000), Waitpid_WNOHANG 5], Returns 0)
   \<and> sint (- 2147482 :: c_llong) \<noteq> (sint (2147483647 :: c_int) + 1000) div 1000
   \<and> sint (- 649000000 :: c_llong) \<noteq> ((sint (2147483647 :: c_int) + 1000) mod 1000) * 10 ^ 6"
  by (simp add: sandbox_executor_def example_exec_env_def example_cfg_def write_file_def
      wait_timeout_max Let_def WIFEXITED_def WEXITSTATUS_def word_sless_alt word_sle_eq)

text \<open>
  How the timed wait resolves, for an executor that has forked the grandchild \<open>pid\<close>:
  on a timeout it kills, reaps and returns 2; on another failure of the wait it kills,
  reaps and returns 1; when the non-blocking \<open>waitpid\<close> reaps the grandchild it returns
  0, 1 or 3 by the status; otherwise it kills and returns 1, and here the blocking
  \<open>waitpid\<close> of the other two killing paths is missing.
\<close>

lemma executor_wait_resolution:
  assumes "chdir_ok env" and "stdin_writable env" and "\<not> barrier_read env \<le>s 0"
    and "sigprocmask_ret env \<noteq> - 1" and "\<not> fork_ret env <s 0" and "fork_ret env \<noteq> 0"
  shows "sandbox_executor env cfg =
     (let pid = fork_ret env;
          waited = Sigtimedwait (fst (wait_timeout (time_limit cfg)))
                     (snd (wait_timeout (time_limit cfg)))
      in if sigtimedwait_ret env <s 0 \<and> errno_is_EAGAIN env
           then ([waited, Kill_SIGKILL pid, Waitpid pid], Returns 2)
         else if sigtimedwait_ret env <s 0
           then ([waited, Kill_SIGKILL pid, Waitpid pid], Returns 1)
         else if waitpid_nohang_ret env = pid \<and> WIFEXITED (child_status env)
                 \<and> WEXITSTATUS (child_status env) = 0
           then ([waited, Waitpid_WNOHANG pid], Returns 0)
         else if waitpid_nohang_ret env = pid \<and> WIFEXITED (child_status env)
           then ([waited, Waitpid_WNOHANG pid], Returns 1)
         else if waitpid_nohang_ret env = pid
           then ([waited, Waitpid_WNOHANG pid], Returns 3)
         else ([waited, Waitpid_WNOHANG pid, Kill_SIGKILL pid], Returns 1))"
  using assms by (simp add: sandbox_executor_def write_file_def Let_def)

text \<open>
  Claim C4 at the input where the code departs from it: \<open>sigtimedwait\<close> returns
  \<open>SIGCHLD\<close> (17) and the non-blocking \<open>waitpid\<close> returns 0, the grandchild 5
  still running. The executor kills the grandchild and returns 1; no \<open>waitpid\<close>
  follows the \<open>kill\<close>, so the grandchild is not reaped.
\<close>

theorem executor_race_not_reaped:
  "sandbox_executor (example_exec_env\<lparr>waitpid_nohang_ret := 0\<rparr>) example_cfg
     = ([Sigtimedwait 2 0, Waitpid_WNOHANG 5, Kill_SIGKILL 5], Returns 1)
   \<and> Waitpid 5 \<notin> set (fst (sandbox_executor (example_exec_env\<lparr>waitpid_nohang_ret := 0\<rparr>)
                                example_cfg))"
  by (simp add: sandbox_executor_def example_exec_env_def example_cfg_def write_file_def
      wait_timeout_1000 Let_def word_sless_alt word_sle_eq)

subsection \<open>Cgroup files\<close>

lemma ws_tokens_skip: "ws_tokens [] s = ws_tokens [] (dropWhile isspace s)"
  by (induction s) auto

lemma ws_tokens_word:
  "cur @ takeWhile (\<lambda>c. \<not> isspace c) s \<noteq> [] \<Longrightarrow>
   ws_tokens cur s = (cur @ takeWhile (\<lambda>c. \<not> isspace c) s)
                       # ws_tokens [] (dropWhile (\<lambda>c. \<not> isspace c) s)"
  by (induction s arbitrary: cur) auto

lemma ws_tokens_None: "extract_token s = None \<Longrightarrow> ws_tokens [] s = []"
proof -
  assume "extract_token s = None"
  then have d: "dropWhile isspace s = []"
    by (simp add: extract_token_def Let_def split: if_splits)
  show ?thesis
    by (subst ws_tokens_skip, subst d, simp)
qed

lemma ws_tokens_Some:
  assumes "extract_token s = Some (t, r)"
  shows "ws_tokens [] s = t # ws_tokens [] r"
proof -
  let ?u = "dropWhile isspace s"
  from assms have u: "?u \<noteq> []"
    and t: "t = takeWhile (\<lambda>c. \<not> isspace c) ?u"
    and r: "r = dropWhile (\<lambda>c. \<not> isspace c) ?u"
    by (auto simp: extract_token_def Let_def split: if_splits)
  from u have "\<not> isspace (hd ?u)"
    by (simp add: hd_dropWhile)
  with u have "takeWhile (\<lambda>c. \<not> isspace c) ?u \<noteq> []"
    by (cases ?u) auto
  then have "ws_tokens [] ?u = t # ws_tokens [] r"
    using ws_tokens_word [of "[]" ?u] t r by simp
  then show ?thesis
    using ws_tokens_skip [of s] by simp
qed

lemma get_cgroup_key_lookup: "get_cgroup_key s k = cgroup_lookup s k"
proof (induction s k rule: get_cgroup_key.induct)
  case (1 s k)
  show ?case
  proof (cases "extract_token s")
    case None
    then show ?thesis
      by (subst get_cgroup_key.simps) (simp add: cgroup_lookup_def ws_tokens_None)
  next
    case (Some a)
    obtain key s1 where a: "a = (key, s1)"
      by (cases a)
    show ?thesis
    proof (cases "extract_token s1")
      case None
      then show ?thesis
        using Some a
        by (subst get_cgroup_key.simps)
           (simp add: cgroup_lookup_def ws_tokens_Some [of s key s1] ws_tokens_None)
    next
      case (Some b)
      obtain val s2 where b: "b = (val, s2)"
        by (cases b)
      have toks: "ws_tokens [] s = key # val # ws_tokens [] s2"
        using \<open>extract_token s = Some a\<close> a Some b
        by (simp add: ws_tokens_Some [of s key s1] ws_tokens_Some [of s1 val s2])
      show ?thesis
      proof (cases "key = k")
        case True
        then show ?thesis
          using \<open>extract_token s = Some a\<close> a Some b toks
          by (subst get_cgroup_key.simps) (simp add: cgroup_lookup_def)
      next
        case False
        have "get_cgroup_key s2 k = cgroup_lookup s2 k"
          using "1.IH" [OF \<open>extract_token s = Some a\<close> a [symmetric] Some b [symmetric] False] .
        then show ?thesis
          using \<open>extract_token s = Some a\<close> a Some b toks False
          by (subst get_cgroup_key.simps) (simp add: cgroup_lookup_def)
      qed
    qed
  qed
qed

subsection \<open>The result collected by container-init\<close>

lemma read_file_absent: "fs path = NoOpen \<Longrightarrow> read_file fs path = []"
  by (simp add: read_file_def)




lemma read_bin_file_Inr:
  assumes "read_bin_file fs path = Inr buf"
  shows "fs path = NoOpen \<and> buf = []
       \<or> (\<exists>sz d. fs path = Opens sz True d \<and> \<not> sz <s 0
            \<and> buf = (if unat sz \<le> length d then take (unat sz) d else []))"
  using assms by (auto simp: read_bin_file_def split: fnode.splits if_splits)






lemma collect_output_files_cong:
  assumes "\<forall>name \<in> set names. fs' (tmp @ ''/'' @ name) = fs (tmp @ ''/'' @ name)"
  shows "collect_output_files fs' tmp names = collect_output_files fs tmp names"
  using assms
proof (induction names)
  case Nil
  show ?case
    by simp
next
  case (Cons n names)
  from Cons.prems have "read_bin_file fs' (tmp @ ''/'' @ n) = read_bin_file fs (tmp @ ''/'' @ n)"
    by (simp add: read_bin_file_def)
  moreover from Cons.prems have "collect_output_files fs' tmp names
      = collect_output_files fs tmp names"
    by (intro Cons.IH) simp
  ultimately show ?case
    by (simp only: collect_output_files.simps)
qed

lemma collect_result_Inr:
  assumes "collect_result fs cfg status cg tmp = Inr res"
  obtains usec peak oom files where
    "stoll (get_cgroup_key (read_file fs (cg @ ''/cpu.stat'')) ''user_usec'') = Inr usec"
    "(if read_file fs (cg @ ''/memory.peak'') = [] then Inr 0
      else stoll (read_file fs (cg @ ''/memory.peak''))) = Inr peak"
    "stoi (get_cgroup_key (read_file fs (cg @ ''/memory.events'')) ''oom_kill'') = Inr oom"
    "collect_output_files fs tmp (output_filenames cfg) = Inr files"
    "res = \<lparr>verdict = (if time_limit cfg <s ucast (c_div usec 1000) then VERDICT_TLE
                        else if oom \<noteq> 0 then VERDICT_MLE
                        else exit_verdict (exit_code_of status)),
            time = ucast (c_div usec 1000),
            memory = c_div (c_div peak 1024) 1024,
            stdout_content = read_file fs (tmp @ ''/stdout''),
            stderr_content = read_file fs (tmp @ ''/stderr''),
            output_files = files\<rparr>"
proof -
  obtain usec where u: "stoll (get_cgroup_key (read_file fs (cg @ ''/cpu.stat'')) ''user_usec'') = Inr usec"
    using assms by (cases "stoll (get_cgroup_key (read_file fs (cg @ ''/cpu.stat'')) ''user_usec'')")
      (simp_all add: collect_result_def Let_def)
  obtain peak where p: "(if read_file fs (cg @ ''/memory.peak'') = [] then Inr 0
      else stoll (read_file fs (cg @ ''/memory.peak''))) = Inr peak"
    using assms u
    by (cases "(if read_file fs (cg @ ''/memory.peak'') = [] then Inr 0
      else stoll (read_file fs (cg @ ''/memory.peak'')))")
      (simp_all add: collect_result_def Let_def)
  obtain oom where o: "stoi (get_cgroup_key (read_file fs (cg @ ''/memory.events'')) ''oom_kill'') = Inr oom"
    using assms u p
    by (cases "stoi (get_cgroup_key (read_file fs (cg @ ''/memory.events'')) ''oom_kill'')")
      (simp_all add: collect_result_def Let_def)
  obtain files where f: "collect_output_files fs tmp (output_filenames cfg) = Inr files"
    using assms u p o
    by (cases "collect_output_files fs tmp (output_filenames cfg)")
      (simp_all add: collect_result_def Let_def)
  have "res = \<lparr>verdict = (if time_limit cfg <s ucast (c_div usec 1000) then VERDICT_TLE
                        else if oom \<noteq> 0 then VERDICT_MLE
                        else exit_verdict (exit_code_of status)),
            time = ucast (c_div usec 1000),
            memory = c_div (c_div peak 1024) 1024,
            stdout_content = read_file fs (tmp @ ''/stdout''),
            stderr_content = read_file fs (tmp @ ''/stderr''),
            output_files = files\<rparr>"
    using assms u p o f by (simp add: collect_result_def Let_def)
  with u p o f show ?thesis
    by (rule that)
qed

lemma collect_result_produced:
  assumes "stoll (get_cgroup_key (read_file fs (cg @ ''/cpu.stat'')) ''user_usec'') = Inr usec"
    and "(if read_file fs (cg @ ''/memory.peak'') = [] then Inr 0
          else stoll (read_file fs (cg @ ''/memory.peak''))) = Inr peak"
    and "stoi (get_cgroup_key (read_file fs (cg @ ''/memory.events'')) ''oom_kill'') = Inr oom"
    and "collect_output_files fs tmp (output_filenames cfg) = Inr files"
  shows "collect_result fs cfg status cg tmp
       = Inr \<lparr>verdict = (if time_limit cfg <s ucast (c_div usec 1000) then VERDICT_TLE
                          else if oom \<noteq> 0 then VERDICT_MLE
                          else exit_verdict (exit_code_of status)),
              time = ucast (c_div usec 1000),
              memory = c_div (c_div peak 1024) 1024,
              stdout_content = read_file fs (tmp @ ''/stdout''),
              stderr_content = read_file fs (tmp @ ''/stderr''),
              output_files = files\<rparr>"
  using assms by (simp add: collect_result_def Let_def)

lemma collect_result_fields:
  assumes "collect_result fs cfg status cg tmp = Inr res"
  shows "\<exists>usec peak oom.
           stoll (get_cgroup_key (read_file fs (cg @ ''/cpu.stat'')) ''user_usec'') = Inr usec
         \<and> (if read_file fs (cg @ ''/memory.peak'') = [] then Inr 0
              else stoll (read_file fs (cg @ ''/memory.peak''))) = Inr peak
         \<and> stoi (get_cgroup_key (read_file fs (cg @ ''/memory.events'')) ''oom_kill'') = Inr oom
         \<and> verdict res = (if time_limit cfg <s time res then VERDICT_TLE
                             else if oom \<noteq> 0 then VERDICT_MLE
                             else exit_verdict (exit_code_of status))
         \<and> time res = ucast (c_div usec 1000)
         \<and> memory res = c_div (c_div peak 1024) 1024"
proof (rule collect_result_Inr [OF assms])
  fix usec peak oom files
  assume "stoll (get_cgroup_key (read_file fs (cg @ ''/cpu.stat'')) ''user_usec'') = Inr usec"
    and "(if read_file fs (cg @ ''/memory.peak'') = [] then Inr 0
          else stoll (read_file fs (cg @ ''/memory.peak''))) = Inr peak"
    and "stoi (get_cgroup_key (read_file fs (cg @ ''/memory.events'')) ''oom_kill'') = Inr oom"
    and "res = \<lparr>verdict = (if time_limit cfg <s ucast (c_div usec 1000) then VERDICT_TLE
                        else if oom \<noteq> 0 then VERDICT_MLE
                        else exit_verdict (exit_code_of status)),
            time = ucast (c_div usec 1000),
            memory = c_div (c_div peak 1024) 1024,
            stdout_content = read_file fs (tmp @ ''/stdout''),
            stderr_content = read_file fs (tmp @ ''/stderr''),
            output_files = files\<rparr>"
  then show ?thesis
    by (intro exI [of _ usec] exI [of _ peak] exI [of _ oom]) simp
qed

lemma collect_result_output_files:
  assumes "collect_result fs cfg status cg tmp = Inr res"
  shows "collect_output_files fs tmp (output_filenames cfg) = Inr (output_files res)"
    and "stdout_content res = read_file fs (tmp @ ''/stdout'')"
    and "stderr_content res = read_file fs (tmp @ ''/stderr'')"
  by (rule collect_result_Inr [OF assms], simp)+

lemma collect_result_throws:
  assumes "collect_output_files fs tmp (output_filenames cfg) = Inl e"
  shows "\<exists>e'. collect_result fs cfg status cg tmp = Inl e'"
proof (cases "collect_result fs cfg status cg tmp")
  case (Inl a)
  then show ?thesis
    by simp
next
  case (Inr res)
  from collect_result_output_files(1) [OF Inr] assms show ?thesis
    by simp
qed

lemma stoll_value:
  assumes "stoll s = Inr w"
  obtains v where "parse_decimal s = Some v" "- (2 ^ 63) \<le> v" "v < 2 ^ 63" "w = word_of_int v"
  using assms by (auto simp: stoll_def split: option.splits if_splits)

lemma ucast_llong_of_int: "(ucast (word_of_int v :: c_llong) :: c_int) = word_of_int v"
  by (rule bit_word_eqI) (auto simp: bit_simps)

lemma div_1024_twice: "0 \<le> (v::int) \<Longrightarrow> v div 1024 div 1024 = v div 2 ^ 20"
  by (simp add: zdiv_zmult2_eq [symmetric])

text \<open>The example files, read by \<open>collect_result\<close>.\<close>

lemma example_user_usec:
  "get_cgroup_key cpu_stat_2000ms ''user_usec'' = ''2000000''"
  "get_cgroup_key cpu_stat_500ms ''user_usec'' = ''500000''"
  "get_cgroup_key cpu_stat_50days ''user_usec'' = ''4294967296000''"
  by (simp_all add: get_cgroup_key_lookup cgroup_lookup_def isspace_def
      cpu_stat_2000ms_def cpu_stat_500ms_def cpu_stat_50days_def)

lemma example_oom_kill:
  "get_cgroup_key events_oom ''oom_kill'' = ''1''"
  "get_cgroup_key events_calm ''oom_kill'' = ''0''"
  by (simp_all add: get_cgroup_key_lookup cgroup_lookup_def isspace_def
      events_oom_def events_calm_def)

lemma example_numbers:
  "parse_decimal ''2000000'' = Some 2000000"
  "parse_decimal ''500000'' = Some 500000"
  "parse_decimal ''4294967296000'' = Some 4294967296000"
  "parse_decimal ''3145728\<newline>'' = Some 3145728"
  "parse_decimal ''1'' = Some 1"
  "parse_decimal ''0'' = Some 0"
  by (simp_all add: parse_decimal_def isspace_def isdigit_def dec_val_def)

lemma example_quotients:
  "(ucast (c_div (2000000 :: c_llong) 1000) :: c_int) = 2000"
  "(ucast (c_div (500000 :: c_llong) 1000) :: c_int) = 500"
  "(ucast (c_div (4294967296000 :: c_llong) 1000) :: c_int) = 0"
  "c_div (c_div (3145728 :: c_llong) 1024) 1024 = 3"
  by (simp_all add: c_div_def)

lemma example_status: "exit_code_of 0 = 0" "exit_code_of 256 = 1"
  by (simp_all add: exit_code_of_def WIFEXITED_def WEXITSTATUS_def)

lemmas example_simps =
  collect_result_def Let_def read_file_def read_bin_file_def regular_def example_files_def
  example_cfg_def example_user_usec example_oom_kill stoll_def stoi_def example_numbers
  example_quotients example_status exit_verdict_def word_sless_alt

lemma example_run_slow_oom:
  "collect_result (example_files cpu_stat_2000ms events_oom) example_cfg 0
       ''/cg/judge.x'' ''/tmp/judger_sandbox_x/tmp''
     = Inr \<lparr>verdict = VERDICT_TLE, time = 2000, memory = 3, stdout_content = ''hi'',
            stderr_content = [],
            output_files = [\<lparr>filename = ''a'', content = ''xy'', mode = 0\<rparr>]\<rparr>"
  by (simp add: example_simps)

lemma example_run_oom:
  "collect_result (example_files cpu_stat_500ms events_oom) example_cfg 0
       ''/cg/judge.x'' ''/tmp/judger_sandbox_x/tmp''
     = Inr \<lparr>verdict = VERDICT_MLE, time = 500, memory = 3, stdout_content = ''hi'',
            stderr_content = [],
            output_files = [\<lparr>filename = ''a'', content = ''xy'', mode = 0\<rparr>]\<rparr>"
  by (simp add: example_simps)

lemma example_run_exit_1:
  "collect_result (example_files cpu_stat_500ms events_calm) example_cfg 256
       ''/cg/judge.x'' ''/tmp/judger_sandbox_x/tmp''
     = Inr \<lparr>verdict = VERDICT_RE, time = 500, memory = 3, stdout_content = ''hi'',
            stderr_content = [],
            output_files = [\<lparr>filename = ''a'', content = ''xy'', mode = 0\<rparr>]\<rparr>"
  by (simp add: example_simps)

lemma example_run_50days:
  "collect_result (example_files cpu_stat_50days events_calm) example_cfg 0
       ''/cg/judge.x'' ''/tmp/judger_sandbox_x/tmp''
     = Inr \<lparr>verdict = VERDICT_OK, time = 0, memory = 3, stdout_content = ''hi'',
            stderr_content = [],
            output_files = [\<lparr>filename = ''a'', content = ''xy'', mode = 0\<rparr>]\<rparr>"
  by (simp add: example_simps)

lemma example_oom_read:
  "stoi (get_cgroup_key (read_file (example_files u events_oom)
           (''/cg/judge.x'' @ ''/memory.events'')) ''oom_kill'') = Inr 1"
  "stoi (get_cgroup_key (read_file (example_files u events_calm)
           (''/cg/judge.x'' @ ''/memory.events'')) ''oom_kill'') = Inr 0"
  by (simp_all add: read_file_def regular_def example_files_def example_oom_kill stoi_def
      example_numbers)



text \<open>
  Claim C1 fails as it stands: with one memory kill counted and a measured time of
  2000 ms against a limit of 1000 ms, the verdict is \<open>TLE\<close>, not \<open>MLE\<close>. The
  time check is the later of the two assignments and wins.
\<close>

theorem verdict_precedence_counterexample:
  "stoi (get_cgroup_key (read_file (example_files cpu_stat_2000ms events_oom)
           (''/cg/judge.x'' @ ''/memory.events'')) ''oom_kill'') = Inr 1
   \<and> time_limit example_cfg = 1000
   \<and> collect_result (example_files cpu_stat_2000ms events_oom) example_cfg 0
         ''/cg/judge.x'' ''/tmp/judger_sandbox_x/tmp''
       = Inr \<lparr>verdict = VERDICT_TLE, time = 2000, memory = 3, stdout_content = ''hi'',
              stderr_content = [],
              output_files = [\<lparr>filename = ''a'', content = ''xy'', mode = 0\<rparr>]\<rparr>"
  using example_run_slow_oom example_oom_read(1) [of cpu_stat_2000ms]
  by (simp add: example_cfg_def)

text \<open>
  Claim C1, as amended. The precedence is measured time over memory kill over exit
  code: whenever the measured time exceeds the limit the verdict is \<open>TLE\<close>; otherwise
  a positive (indeed any non-zero) \<open>oom_kill\<close> count gives \<open>MLE\<close>; otherwise the
  verdict is that of the exit code.
\<close>

theorem verdict_precedence:
  assumes "collect_result fs cfg status cg tmp = Inr res"
    and "stoi (get_cgroup_key (read_file fs (cg @ ''/memory.events'')) ''oom_kill'') = Inr oom"
  shows "verdict res =
           (if time_limit cfg <s time res then VERDICT_TLE
            else if oom \<noteq> 0 then VERDICT_MLE
            else exit_verdict (exit_code_of status))"
proof -
  from collect_result_fields [OF assms(1)] obtain oom' where
    o: "stoi (get_cgroup_key (read_file fs (cg @ ''/memory.events'')) ''oom_kill'') = Inr oom'"
    and r: "verdict res = (if time_limit cfg <s time res then VERDICT_TLE
                           else if oom' \<noteq> 0 then VERDICT_MLE
                           else exit_verdict (exit_code_of status))"
    by blast
  from o assms(2) have "oom' = oom"
    by simp
  with r show ?thesis
    by simp
qed

theorem verdict_precedence_witness:
  "collect_result (example_files cpu_stat_500ms events_oom) example_cfg 0
       ''/cg/judge.x'' ''/tmp/judger_sandbox_x/tmp''
     = Inr \<lparr>verdict = VERDICT_MLE, time = 500, memory = 3, stdout_content = ''hi'',
            stderr_content = [],
            output_files = [\<lparr>filename = ''a'', content = ''xy'', mode = 0\<rparr>]\<rparr>
   \<and> stoi (get_cgroup_key (read_file (example_files cpu_stat_500ms events_oom)
             (''/cg/judge.x'' @ ''/memory.events'')) ''oom_kill'') = Inr 1
   \<and> VERDICT_MLE =
       (if time_limit example_cfg
             <s time \<lparr>verdict = VERDICT_MLE, time = 500, memory = 3, stdout_content = ''hi'',
                        stderr_content = [],
                        output_files = [\<lparr>filename = ''a'', content = ''xy'', mode = 0\<rparr>]\<rparr>
        then VERDICT_TLE
        else if (1 :: c_int) \<noteq> 0 then VERDICT_MLE
        else exit_verdict (exit_code_of 0))"
  using verdict_precedence [OF example_run_oom example_oom_read(1)]
    example_run_oom example_oom_read(1)
  by simp

subsection \<open>Measured time and memory\<close>

lemma absent_key:
  assumes "k \<notin> fst ` set (kv_pairs (ws_tokens [] s))"
  shows "get_cgroup_key s k = ''0''"
proof -
  from assms have "map_of (kv_pairs (ws_tokens [] s)) k = None"
    by (simp add: map_of_eq_None_iff)
  then show ?thesis
    by (simp add: get_cgroup_key_lookup cgroup_lookup_def)
qed

text \<open>
  Claim C5. The reported memory is the byte count read from \<open>memory.peak\<close>, divided
  by 1024 and by 1024 again, which is the floor of the count over \<open>2^20\<close>; it is 0 when
  the file is absent or empty. An absent or empty \<open>memory.peak\<close> does not stop the
  collection of the result: whenever the two other counters can be parsed and the output
  files can be read back, a result is produced, with memory 0 when \<open>memory.peak\<close> is
  absent or empty and with the floor of the count over \<open>2^20\<close> when it holds a count
  that fits a \<open>long long\<close>.
\<close>

theorem memory_from_peak:
  "(collect_result fs cfg status cg tmp = Inr res
      \<longrightarrow> (fs (cg @ ''/memory.peak'') = NoOpen \<longrightarrow> memory res = 0)
        \<and> (read_file fs (cg @ ''/memory.peak'') = [] \<longrightarrow> memory res = 0)
        \<and> (read_file fs (cg @ ''/memory.peak'') \<noteq> []
             \<and> parse_decimal (read_file fs (cg @ ''/memory.peak'')) = Some bytes \<and> 0 \<le> bytes
           \<longrightarrow> sint (memory res) = bytes div 1024 div 1024
             \<and> sint (memory res) = bytes div 2 ^ 20))
   \<and> (stoll (get_cgroup_key (read_file fs (cg @ ''/cpu.stat'')) ''user_usec'') = Inr usec
        \<and> stoi (get_cgroup_key (read_file fs (cg @ ''/memory.events'')) ''oom_kill'') = Inr oom
        \<and> collect_output_files fs tmp (output_filenames cfg) = Inr files
      \<longrightarrow> (fs (cg @ ''/memory.peak'') = NoOpen
             \<longrightarrow> (\<exists>r. collect_result fs cfg status cg tmp = Inr r \<and> memory r = 0))
        \<and> (read_file fs (cg @ ''/memory.peak'') = []
             \<longrightarrow> (\<exists>r. collect_result fs cfg status cg tmp = Inr r \<and> memory r = 0))
        \<and> (read_file fs (cg @ ''/memory.peak'') \<noteq> []
             \<and> parse_decimal (read_file fs (cg @ ''/memory.peak'')) = Some bytes
             \<and> 0 \<le> bytes \<and> bytes < 2 ^ 63
           \<longrightarrow> (\<exists>r. collect_result fs cfg status cg tmp = Inr r
                     \<and> sint (memory r) = bytes div 2 ^ 20)))"
proof -
  let ?mp = "read_file fs (cg @ ''/memory.peak'')"
  let ?run = "collect_result fs cfg status cg tmp"
  have empty: "memory r = 0" if "?run = Inr r" and "?mp = []" for r
  proof -
    from collect_result_fields [OF that(1)] obtain peak where
      p: "(if ?mp = [] then Inr 0 else stoll ?mp) = Inr peak"
      and m: "memory r = c_div (c_div peak 1024) 1024"
      by blast
    from p that(2) have "peak = 0"
      by simp
    with m show ?thesis
      by (simp add: c_div_def)
  qed
  have known: "sint (memory r) = bytes div 1024 div 1024"
    if "?run = Inr r" and "?mp \<noteq> []" and "parse_decimal ?mp = Some bytes" and "0 \<le> bytes"
    for r
  proof -
    from collect_result_fields [OF that(1)] obtain peak where
      p: "(if ?mp = [] then Inr 0 else stoll ?mp) = Inr peak"
      and m: "memory r = c_div (c_div peak 1024) 1024"
      by blast
    from p that(2) have "stoll ?mp = Inr peak"
      by simp
    then obtain v where "parse_decimal ?mp = Some v" and "v < 2 ^ 63"
      and "peak = word_of_int v"
      by (rule stoll_value)
    with that have peak: "peak = word_of_int bytes" and "bytes < 2 ^ 63"
      by simp_all
    with that(4) have s0: "sint peak = bytes"
      by (simp add: sint_llong_of_int)
    have s1: "sint (c_div peak 1024) = bytes div 1024"
      using c_div_llong_nonneg [of peak 1024] s0 that(4) by simp
    have "0 \<le> bytes div 1024"
      using that(4) by simp
    then show ?thesis
      using c_div_llong_nonneg [of "c_div peak 1024" 1024] s1 m by simp
  qed
  have first: "?run = Inr res
      \<longrightarrow> (fs (cg @ ''/memory.peak'') = NoOpen \<longrightarrow> memory res = 0)
        \<and> (?mp = [] \<longrightarrow> memory res = 0)
        \<and> (?mp \<noteq> [] \<and> parse_decimal ?mp = Some bytes \<and> 0 \<le> bytes
           \<longrightarrow> sint (memory res) = bytes div 1024 div 1024
             \<and> sint (memory res) = bytes div 2 ^ 20)"
    using empty [of res] known [of res] by (auto simp: read_file_absent div_1024_twice)
  have second: "(fs (cg @ ''/memory.peak'') = NoOpen
             \<longrightarrow> (\<exists>r. ?run = Inr r \<and> memory r = 0))
        \<and> (?mp = [] \<longrightarrow> (\<exists>r. ?run = Inr r \<and> memory r = 0))
        \<and> (?mp \<noteq> [] \<and> parse_decimal ?mp = Some bytes \<and> 0 \<le> bytes \<and> bytes < 2 ^ 63
           \<longrightarrow> (\<exists>r. ?run = Inr r \<and> sint (memory r) = bytes div 2 ^ 20))"
    if u: "stoll (get_cgroup_key (read_file fs (cg @ ''/cpu.stat'')) ''user_usec'') = Inr usec"
      and o: "stoi (get_cgroup_key (read_file fs (cg @ ''/memory.events'')) ''oom_kill'')
                = Inr oom"
      and f: "collect_output_files fs tmp (output_filenames cfg) = Inr files"
  proof -
    have made: "\<exists>r. ?run = Inr r" if "(if ?mp = [] then Inr 0 else stoll ?mp) = Inr peak"
      for peak
      using collect_result_produced [OF u that o f, of status] by blast
    have e: "\<exists>r. ?run = Inr r \<and> memory r = 0" if "?mp = []"
    proof -
      from that have "(if ?mp = [] then Inr 0 else stoll ?mp) = Inr 0"
        by simp
      from made [OF this] obtain r where "?run = Inr r"
        by blast
      with empty [OF this that] show ?thesis
        by blast
    qed
    have k: "\<exists>r. ?run = Inr r \<and> sint (memory r) = bytes div 2 ^ 20"
      if "?mp \<noteq> []" and "parse_decimal ?mp = Some bytes" and "0 \<le> bytes"
        and "bytes < 2 ^ 63"
    proof -
      from that have "(if ?mp = [] then Inr 0 else stoll ?mp) = Inr (word_of_int bytes)"
        by (simp add: stoll_def)
      from made [OF this] obtain r where r: "?run = Inr r"
        by blast
      from known [OF r that(1-3)] that(3) have "sint (memory r) = bytes div 2 ^ 20"
        by (simp add: div_1024_twice)
      with r show ?thesis
        by blast
    qed
    show ?thesis
      using e k by (auto simp: read_file_absent)
  qed
  from first second show ?thesis
    by blast
qed

theorem memory_from_peak_witness:
  "collect_result (example_files cpu_stat_500ms events_calm) example_cfg 256
       ''/cg/judge.x'' ''/tmp/judger_sandbox_x/tmp''
     = Inr \<lparr>verdict = VERDICT_RE, time = 500, memory = 3, stdout_content = ''hi'',
            stderr_content = [],
            output_files = [\<lparr>filename = ''a'', content = ''xy'', mode = 0\<rparr>]\<rparr>
   \<and> read_file (example_files cpu_stat_500ms events_calm) (''/cg/judge.x'' @ ''/memory.peak'')
       = ''3145728\<newline>''
   \<and> parse_decimal ''3145728\<newline>'' = Some 3145728
   \<and> sint (3 :: c_llong) = 3145728 div 2 ^ 20
   \<and> ((example_files cpu_stat_500ms events_calm)(''/cg/judge.x/memory.peak'' := NoOpen))
        (''/cg/judge.x'' @ ''/memory.peak'') = NoOpen
   \<and> stoll (get_cgroup_key
        (read_file ((example_files cpu_stat_500ms events_calm)
                      (''/cg/judge.x/memory.peak'' := NoOpen))
           (''/cg/judge.x'' @ ''/cpu.stat'')) ''user_usec'') = Inr 500000
   \<and> stoi (get_cgroup_key
        (read_file ((example_files cpu_stat_500ms events_calm)
                      (''/cg/judge.x/memory.peak'' := NoOpen))
           (''/cg/judge.x'' @ ''/memory.events'')) ''oom_kill'') = Inr 0
   \<and> collect_output_files ((example_files cpu_stat_500ms events_calm)
                             (''/cg/judge.x/memory.peak'' := NoOpen))
        ''/tmp/judger_sandbox_x/tmp'' (output_filenames example_cfg)
       = Inr [\<lparr>filename = ''a'', content = ''xy'', mode = 0\<rparr>]
   \<and> (\<exists>r. collect_result ((example_files cpu_stat_500ms events_calm)
                             (''/cg/judge.x/memory.peak'' := NoOpen)) example_cfg 0
               ''/cg/judge.x'' ''/tmp/judger_sandbox_x/tmp'' = Inr r
          \<and> memory r = 0)
   \<and> (\<exists>r. collect_result ((example_files cpu_stat_500ms events_calm)
                             (''/cg/judge.x/memory.peak'' := regular [])) example_cfg 0
               ''/cg/judge.x'' ''/tmp/judger_sandbox_x/tmp'' = Inr r
          \<and> memory r = 0)"
proof -
  let ?absent = "(example_files cpu_stat_500ms events_calm)(''/cg/judge.x/memory.peak'' := NoOpen)"
  let ?empty = "(example_files cpu_stat_500ms events_calm)
                  (''/cg/judge.x/memory.peak'' := regular [])"
  have f: "read_file (example_files cpu_stat_500ms events_calm)
             (''/cg/judge.x'' @ ''/memory.peak'') = ''3145728\<newline>''"
    by (simp add: read_file_def regular_def example_files_def)
  have present: "sint (3 :: c_llong) = 3145728 div 2 ^ 20"
    using memory_from_peak [of "example_files cpu_stat_500ms events_calm" example_cfg 256
        "''/cg/judge.x''" "''/tmp/judger_sandbox_x/tmp''"
        "\<lparr>verdict = VERDICT_RE, time = 500, memory = 3, stdout_content = ''hi'',
          stderr_content = [],
          output_files = [\<lparr>filename = ''a'', content = ''xy'', mode = 0\<rparr>]\<rparr>" 3145728]
      example_run_exit_1 f
    by (simp add: example_numbers)
  have gone: "?absent (''/cg/judge.x'' @ ''/memory.peak'') = NoOpen"
    by simp
  have none: "read_file ?empty (''/cg/judge.x'' @ ''/memory.peak'') = []"
    by (simp add: read_file_def regular_def)
  have ua: "stoll (get_cgroup_key (read_file ?absent (''/cg/judge.x'' @ ''/cpu.stat''))
      ''user_usec'') = Inr 500000"
    and ue: "stoll (get_cgroup_key (read_file ?empty (''/cg/judge.x'' @ ''/cpu.stat''))
      ''user_usec'') = Inr 500000"
    by (simp_all add: read_file_def regular_def example_files_def example_user_usec stoll_def
        example_numbers)
  have oa: "stoi (get_cgroup_key (read_file ?absent (''/cg/judge.x'' @ ''/memory.events''))
      ''oom_kill'') = Inr 0"
    and oe: "stoi (get_cgroup_key (read_file ?empty (''/cg/judge.x'' @ ''/memory.events''))
      ''oom_kill'') = Inr 0"
    by (simp_all add: read_file_def regular_def example_files_def example_oom_kill stoi_def
        example_numbers)
  have fa: "collect_output_files ?absent ''/tmp/judger_sandbox_x/tmp''
      (output_filenames example_cfg) = Inr [\<lparr>filename = ''a'', content = ''xy'', mode = 0\<rparr>]"
    and fe: "collect_output_files ?empty ''/tmp/judger_sandbox_x/tmp''
      (output_filenames example_cfg) = Inr [\<lparr>filename = ''a'', content = ''xy'', mode = 0\<rparr>]"
    by (simp_all add: example_cfg_def read_bin_file_def regular_def example_files_def
        word_sless_alt)
  have ra: "\<exists>r. collect_result ?absent example_cfg 0 ''/cg/judge.x''
      ''/tmp/judger_sandbox_x/tmp'' = Inr r \<and> memory r = 0"
    using memory_from_peak [of ?absent example_cfg 0 "''/cg/judge.x''"
        "''/tmp/judger_sandbox_x/tmp''" _ _ 500000 0
        "[\<lparr>filename = ''a'', content = ''xy'', mode = 0\<rparr>]"] gone ua oa fa
    by blast
  have re: "\<exists>r. collect_result ?empty example_cfg 0 ''/cg/judge.x''
      ''/tmp/judger_sandbox_x/tmp'' = Inr r \<and> memory r = 0"
    using memory_from_peak [of ?empty example_cfg 0 "''/cg/judge.x''"
        "''/tmp/judger_sandbox_x/tmp''" _ _ 500000 0
        "[\<lparr>filename = ''a'', content = ''xy'', mode = 0\<rparr>]"] none ue oe fe
    by blast
  show ?thesis
    by (intro conjI) (fact example_run_exit_1, fact f, fact example_numbers(4), fact present,
        fact gone, fact ua, fact oa, fact fa, fact ra, fact re)
qed

text \<open>
  Claim C6 fails as it stands: \<open>time\<close> is an \<open>int\<close>, and the quotient is narrowed
  to it. With \<open>user_usec 4294967296000\<close> in \<open>cpu.stat\<close> the quotient is
  \<open>4294967296 = 2^32\<close> and the reported time is 0.
\<close>

theorem time_from_cpu_stat_counterexample:
  "parse_decimal (cgroup_lookup (read_file (example_files cpu_stat_50days events_calm)
       (''/cg/judge.x'' @ ''/cpu.stat'')) ''user_usec'') = Some 4294967296000
   \<and> collect_result (example_files cpu_stat_50days events_calm) example_cfg 0
         ''/cg/judge.x'' ''/tmp/judger_sandbox_x/tmp''
       = Inr \<lparr>verdict = VERDICT_OK, time = 0, memory = 3, stdout_content = ''hi'',
              stderr_content = [],
              output_files = [\<lparr>filename = ''a'', content = ''xy'', mode = 0\<rparr>]\<rparr>
   \<and> sint (0 :: c_int) \<noteq> 4294967296000 div 1000
   \<and> uint (0 :: c_int) \<noteq> 4294967296000 div 1000"
proof -
  have "read_file (example_files cpu_stat_50days events_calm) (''/cg/judge.x'' @ ''/cpu.stat'')
          = cpu_stat_50days"
    by (simp add: read_file_def regular_def example_files_def)
  then show ?thesis
    using example_run_50days example_user_usec(3)
    by (simp add: get_cgroup_key_lookup example_numbers)
qed

text \<open>
  Claim C6, as amended. \<open>get_cgroup_key\<close> reads a cgroup file as white-space separated
  key and value pairs, and a key that is in no pair reads as \<open>''0''\<close>; so are
  \<open>user_usec\<close> read from \<open>cpu.stat\<close> and \<open>oom_kill\<close> from \<open>memory.events\<close>.
  The reported time is the value of \<open>user_usec\<close> divided by 1000 and narrowed to
  \<open>int\<close>: it is the quotient itself when that is below \<open>2^31\<close>.
\<close>

theorem time_from_cpu_stat:
  assumes "collect_result fs cfg status cg tmp = Inr res"
    and "parse_decimal (cgroup_lookup (read_file fs (cg @ ''/cpu.stat'')) ''user_usec'')
           = Some usec"
  shows "time res = word_of_int (usec sdiv 1000)
       \<and> (0 \<le> usec \<and> usec div 1000 < 2 ^ 31 \<longrightarrow> sint (time res) = usec div 1000)
       \<and> (\<exists>oom. stoi (cgroup_lookup (read_file fs (cg @ ''/memory.events'')) ''oom_kill'')
                  = Inr oom)
       \<and> get_cgroup_key s k = cgroup_lookup s k
       \<and> (k \<notin> fst ` set (kv_pairs (ws_tokens [] s)) \<longrightarrow> get_cgroup_key s k = ''0'')"
proof -
  from collect_result_fields [OF assms(1)] obtain w oom where
    u: "stoll (get_cgroup_key (read_file fs (cg @ ''/cpu.stat'')) ''user_usec'') = Inr w"
    and o: "stoi (get_cgroup_key (read_file fs (cg @ ''/memory.events'')) ''oom_kill'')
              = Inr oom"
    and t: "time res = ucast (c_div w 1000)"
    by blast
  from u obtain v where "parse_decimal
        (get_cgroup_key (read_file fs (cg @ ''/cpu.stat'')) ''user_usec'') = Some v"
    and "- (2 ^ 63) \<le> v" and "v < 2 ^ 63" and "w = word_of_int v"
    by (rule stoll_value)
  with assms(2) have w: "w = word_of_int usec" and lo: "- (2 ^ 63) \<le> usec"
    and hi: "usec < 2 ^ 63"
    by (simp_all add: get_cgroup_key_lookup)
  from lo hi have "sint w = usec"
    unfolding w by (rule sint_llong_of_int)
  then have "c_div w 1000 = word_of_int (usec sdiv 1000)"
    by (simp add: c_div_def)
  with t have time: "time res = word_of_int (usec sdiv 1000)"
    by (simp add: ucast_llong_of_int)
  have range: "0 \<le> usec \<and> usec div 1000 < 2 ^ 31 \<longrightarrow> sint (time res) = usec div 1000"
  proof
    assume a: "0 \<le> usec \<and> usec div 1000 < 2 ^ 31"
    then have "usec sdiv 1000 = usec div 1000"
      by (simp add: sdiv_nonneg)
    moreover from a have "0 \<le> usec div 1000"
      by (simp add: pos_imp_zdiv_nonneg_iff)
    ultimately show "sint (time res) = usec div 1000"
      using a time by (simp add: sint_int_of_int)
  qed
  from o have ex: "\<exists>oom. stoi (cgroup_lookup (read_file fs (cg @ ''/memory.events'')) ''oom_kill'')
                 = Inr oom"
    by (simp add: get_cgroup_key_lookup)
  have lk: "get_cgroup_key s k = cgroup_lookup s k"
    by (rule get_cgroup_key_lookup)
  have ab: "k \<notin> fst ` set (kv_pairs (ws_tokens [] s)) \<longrightarrow> get_cgroup_key s k = ''0''"
    by (simp add: absent_key)
  show ?thesis
    by (intro conjI) (fact time, fact range, fact ex, fact lk, fact ab)
qed

theorem time_from_cpu_stat_witness:
  "collect_result (example_files cpu_stat_500ms events_calm) example_cfg 256
       ''/cg/judge.x'' ''/tmp/judger_sandbox_x/tmp''
     = Inr \<lparr>verdict = VERDICT_RE, time = 500, memory = 3, stdout_content = ''hi'',
            stderr_content = [],
            output_files = [\<lparr>filename = ''a'', content = ''xy'', mode = 0\<rparr>]\<rparr>
   \<and> parse_decimal (cgroup_lookup (read_file (example_files cpu_stat_500ms events_calm)
         (''/cg/judge.x'' @ ''/cpu.stat'')) ''user_usec'') = Some 500000
   \<and> (500 :: c_int) = word_of_int (500000 sdiv 1000)
   \<and> get_cgroup_key ''a 1'' ''b'' = ''0''"
proof -
  have f: "read_file (example_files cpu_stat_500ms events_calm)
             (''/cg/judge.x'' @ ''/cpu.stat'') = cpu_stat_500ms"
    by (simp add: read_file_def regular_def example_files_def)
  have p: "parse_decimal (cgroup_lookup (read_file (example_files cpu_stat_500ms events_calm)
         (''/cg/judge.x'' @ ''/cpu.stat'')) ''user_usec'') = Some 500000"
    unfolding f using example_user_usec(2) by (simp add: get_cgroup_key_lookup example_numbers)
  show ?thesis
    using time_from_cpu_stat [OF example_run_exit_1 p, of "''a 1''" "''b''"] example_run_exit_1 p
    by (simp add: cgroup_lookup_def isspace_def)
qed

subsection \<open>Writing frames\<close>

lemma write_full_no_fault:
  "faults out = [] \<Longrightarrow> write_full b out = (Inr (), out\<lparr>written := written out @ b\<rparr>)"
  by (simp add: write_full_def)



lemma write_proto_str_bytes:
  assumes "faults out = []" and "length s < 2 ^ 31"
  shows "write_proto_str s out = (Inr (), out\<lparr>written := written out @ proto_bytes s\<rparr>)"
  using assms
  by (simp add: write_proto_str_def Let_def write_full_no_fault small_len_pos small_len_unat
      proto_bytes_def)

lemma write_proto_buf_bytes:
  assumes "faults out = []" and "length s < 2 ^ 31"
  shows "write_proto_buf s out = (Inr (), out\<lparr>written := written out @ proto_bytes s\<rparr>)"
  using assms
  by (simp add: write_proto_buf_def Let_def write_full_no_fault small_len_pos small_len_unat
      proto_bytes_def)


lemma run_writes_bytes:
  assumes "list_all2 (\<lambda>w b. \<forall>out. faults out = []
             \<longrightarrow> w out = (Inr (), out\<lparr>written := written out @ b\<rparr>)) ws bs"
    and "faults out = []"
  shows "run_writes ws out = (Inr (), out\<lparr>written := written out @ concat bs\<rparr>)"
  using assms
proof (induction ws bs arbitrary: out rule: list_all2_induct)
  case Nil
  then show ?case by simp
next
  case (Cons w ws b bs)
  then have w: "w out = (Inr (), out\<lparr>written := written out @ b\<rparr>)"
    by simp
  have "faults (out\<lparr>written := written out @ b\<rparr>) = []"
    using Cons.prems by simp
  then have "run_writes ws (out\<lparr>written := written out @ b\<rparr>)
      = (Inr (), out\<lparr>written := written out @ b @ concat bs\<rparr>)"
    using Cons.IH [of "out\<lparr>written := written out @ b\<rparr>"] by simp
  with w show ?case
    by simp
qed


lemma write_frame_bytes:
  assumes "faults out = []" and "length so < 2 ^ 31" and "length se < 2 ^ 31"
    and "\<forall>(name, buf) \<in> set files. length name < 2 ^ 31 \<and> length buf < 2 ^ 31"
  shows "write_frame v t m so se cnt files out
       = (Inr (), out\<lparr>written := written out @ response_bytes
            \<lparr>fr_verdict = v, fr_time = t, fr_memory = m, fr_stdout = so, fr_stderr = se,
             fr_file_cnt = cnt, fr_files = files\<rparr>\<rparr>)"
proof -
  let ?P = "\<lambda>w b. \<forall>out. faults out = []
              \<longrightarrow> w out = (Inr (), out\<lparr>written := written out @ b\<rparr>)"
  have files: "list_all2 ?P
      (concat (map (\<lambda>(name, buf). [write_proto_str name, write_proto_buf buf]) files))
      (concat (map (\<lambda>(name, buf). [proto_bytes name, proto_bytes buf]) files))"
    using assms(4)
    by (induction files) (auto simp: write_proto_str_bytes write_proto_buf_bytes)
  have head: "list_all2 ?P
      [write_full (int_bytes v), write_full (int_bytes t), write_full (llong_bytes m),
       write_proto_str so, write_proto_str se, write_full (int_bytes cnt)]
      [int_bytes v, int_bytes t, llong_bytes m, proto_bytes so, proto_bytes se, int_bytes cnt]"
    using assms(2,3) by (simp add: write_full_no_fault write_proto_str_bytes)
  have cat: "concat (concat (map (\<lambda>(name, buf). [proto_bytes name, proto_bytes buf]) files))
      = concat (map (\<lambda>(name, buf). proto_bytes name @ proto_bytes buf) files)"
    by (induction files) auto
  show ?thesis
    unfolding write_frame_def
    using run_writes_bytes [OF list_all2_appendI [OF head files] assms(1)]
    by (simp add: response_bytes_def cat)
qed

subsection \<open>Reading frames\<close>

lemma bindE_simps [simp]:
  "bindE (Inr x) f = f x"
  "bindE (Inl e) f = Inl e"
  by (simp_all add: bindE_def)














text \<open>Reading back what the layouts of the specification describe.\<close>

lemma loop_count_of_nat: "n < 2 ^ 31 \<Longrightarrow> loop_count (of_nat n) = n"
  by (simp add: loop_count_def small_len_pos small_len_unat)

lemma read_proto_str_proto_bytes:
  assumes "length s < 2 ^ 31"
  shows "read_proto_str \<lparr>pending = proto_bytes s @ rest, calls = cs\<rparr>
           = Inr (s, \<lparr>pending = rest,
                        calls = cs @ (if s = [] then [4] else [4, length s])\<rparr>)"
  using read_proto_str_encoded [OF assms, of rest cs] by (simp add: proto_bytes_def)

lemma read_proto_buf_proto_bytes:
  assumes "length s < 2 ^ 31"
  shows "read_proto_buf \<lparr>pending = proto_bytes s @ rest, calls = cs\<rparr>
           = Inr (s, \<lparr>pending = rest,
                        calls = cs @ (if s = [] then [4] else [4, length s])\<rparr>)"
  using assms
  by (simp add: read_proto_buf_def proto_bytes_def read_int_int_bytes small_len_pos
      small_len_not_neg small_len_unat read_full_def)

lemma read_strs_encoded:
  assumes "\<forall>s \<in> set xs. length s < 2 ^ 31"
  shows "read_strs (length xs) \<lparr>pending = concat (map proto_bytes xs) @ rest, calls = cs\<rparr>
           = Inr (xs, \<lparr>pending = rest,
                         calls = cs @ concat (map (\<lambda>s. if s = [] then [4] else [4, length s])
                                                xs)\<rparr>)"
  using assms
  by (induction xs arbitrary: cs) (simp_all add: read_proto_str_proto_bytes)

lemma read_input_file_encoded:
  assumes "length (filename f) < 2 ^ 31" and "length (content f) < 2 ^ 31"
  shows "read_input_file \<lparr>pending = input_file_bytes f @ rest, calls = cs\<rparr>
           = Inr (f, \<lparr>pending = rest,
                        calls = cs @ (if filename f = [] then [4] else [4, length (filename f)])
                                   @ (if content f = [] then [4] else [4, length (content f)])
                                   @ [4]\<rparr>)"
  using assms
  by (simp add: read_input_file_def input_file_bytes_def read_proto_str_proto_bytes
      read_proto_buf_proto_bytes read_int_int_bytes)

lemma read_input_files_encoded:
  assumes "\<forall>f \<in> set fs. length (filename f) < 2 ^ 31 \<and> length (content f) < 2 ^ 31"
  shows "read_input_files (length fs)
           \<lparr>pending = concat (map input_file_bytes fs) @ rest, calls = cs\<rparr>
           = Inr (fs, \<lparr>pending = rest,
                  calls = cs @ concat (map (\<lambda>f.
                     (if filename f = [] then [4] else [4, length (filename f)])
                     @ (if content f = [] then [4] else [4, length (content f)]) @ [4]) fs)\<rparr>)"
  using assms
  by (induction fs arbitrary: cs) (simp_all add: read_input_file_encoded)

lemma read_output_files_encoded:
  assumes "\<forall>(name, buf) \<in> set fs. length name < 2 ^ 31 \<and> length buf < 2 ^ 31"
  shows "read_output_files (length fs)
           \<lparr>pending = concat (map (\<lambda>(name, buf). proto_bytes name @ proto_bytes buf) fs) @ rest,
            calls = cs\<rparr>
           = Inr (fs, \<lparr>pending = rest,
                  calls = cs @ concat (map (\<lambda>(name, buf).
                     (if name = [] then [4] else [4, length name])
                     @ (if buf = [] then [4] else [4, length buf])) fs)\<rparr>)"
  using assms
  by (induction fs arbitrary: cs)
     (auto simp: read_output_file_def read_proto_str_proto_bytes read_proto_buf_proto_bytes)

lemma read_frame_encoded:
  assumes "length (fr_stdout fr) < 2 ^ 31" and "length (fr_stderr fr) < 2 ^ 31"
    and "\<forall>(name, buf) \<in> set (fr_files fr). length name < 2 ^ 31 \<and> length buf < 2 ^ 31"
    and "length (fr_files fr) < 2 ^ 31"
    and "fr_file_cnt fr = of_nat (length (fr_files fr))"
  shows "\<exists>cs'. read_frame \<lparr>pending = response_bytes fr @ rest, calls = cs\<rparr>
           = Inr (fr, \<lparr>pending = rest, calls = cs'\<rparr>)"
  using assms
  by (simp add: read_frame_def response_bytes_def read_int_int_bytes read_llong_llong_bytes
      read_proto_str_proto_bytes loop_count_of_nat read_output_files_encoded)

lemma read_config_encoded:
  assumes "length (rootfs cfg) < 2 ^ 31" and "length (tmpfs_size cfg) < 2 ^ 31"
    and "length (cgroup cfg) < 2 ^ 31" and "length (sandbox_id cfg) < 2 ^ 31"
    and "length (stdin_content cfg) < 2 ^ 31"
    and "\<forall>s \<in> set (cmdline cfg). length s < 2 ^ 31" and "length (cmdline cfg) < 2 ^ 31"
    and "\<forall>f \<in> set (input_files cfg). length (filename f) < 2 ^ 31
           \<and> length (content f) < 2 ^ 31"
    and "length (input_files cfg) < 2 ^ 31"
    and "\<forall>s \<in> set (output_filenames cfg). length s < 2 ^ 31"
    and "length (output_filenames cfg) < 2 ^ 31"
  shows "\<exists>cs'. read_config \<lparr>pending = request_bytes cfg @ rest, calls = cs\<rparr>
           = Inr (cfg, \<lparr>pending = rest, calls = cs'\<rparr>)"
  using assms
  by (simp add: read_config_def request_bytes_def read_int_int_bytes read_llong_llong_bytes
      read_proto_str_proto_bytes loop_count_of_nat read_strs_encoded read_input_files_encoded)

subsection \<open>Container-init\<close>

text \<open>The end of \<open>container_init\<close>, by the first step that fails.\<close>

lemma container_init_no_namespace:
  assumes "\<not> namespace_ready env"
  shows "container_init env cfg dirs
       = \<lparr>dirs_after = dirs, result_pipe = \<lparr>written = [], faults = pipe_faults env\<rparr>,
          init_end = Init_returns 1\<rparr>"
  using assms by (auto simp: container_init_def namespace_ready_def Let_def)

lemma container_init_no_scratch:
  assumes "namespace_ready env" and "\<not> scratch_ready env cfg"
  shows "container_init env cfg dirs
       = \<lparr>dirs_after = mkdir (mkdir_ok env) (''/tmp/judger_sandbox_'' @ sandbox_id cfg) dirs,
          result_pipe = \<lparr>written = [], faults = pipe_faults env\<rparr>,
          init_end = Init_returns 1\<rparr>"
  using assms
  by (auto simp: container_init_def namespace_ready_def scratch_ready_def Let_def)

lemma container_init_no_executor:
  assumes "namespace_ready env" and "scratch_ready env cfg" and "\<not> executor_started env cfg"
  shows "dirs_after (container_init env cfg dirs)
       = mkdir (mkdir_ok env) (cgroup cfg @ ''/judge.'' @ sandbox_id cfg)
           (mkdir (mkdir_ok env) (''/tmp/judger_sandbox_'' @ sandbox_id cfg) dirs)"
    and "result_pipe (container_init env cfg dirs) = \<lparr>written = [], faults = pipe_faults env\<rparr>"
    and "init_end (container_init env cfg dirs) = Init_returns 1
       \<or> (\<exists>e. init_end (container_init env cfg dirs) = Init_terminates e)"
proof -
  let ?cg = "cgroup cfg @ ''/judge.'' @ sandbox_id cfg"
  let ?ends = "\<lambda>e. \<lparr>dirs_after = mkdir (mkdir_ok env) ?cg
                        (mkdir (mkdir_ok env) (''/tmp/judger_sandbox_'' @ sandbox_id cfg) dirs),
                     result_pipe = \<lparr>written = [], faults = pipe_faults env\<rparr>, init_end = e\<rparr>"
  from assms(1,2) have pre: "init_barrier_ok env" "sethostname_ok env" "mount_private_ok env"
    "mount_bind_ok env" "mount_rdonly_ok env" "mount_tmpfs_ok env"
    "write_input_files (can_create env) (can_fill env)
       (''/tmp/judger_sandbox_'' @ sandbox_id cfg @ ''/tmp'') (input_files cfg)"
    by (simp_all add: namespace_ready_def scratch_ready_def)
  have "container_init env cfg dirs = ?ends (Init_returns 1)
      \<or> (\<exists>e. container_init env cfg dirs = ?ends (Init_terminates e))"
  proof (cases "pipe2_ok env \<and> restrict_resource (can_write env) cfg ?cg = Inr ()
      \<and> \<not> clone_ret env <s 0")
    case False
    with pre have "container_init env cfg dirs = ?ends (Init_returns 1)"
      by (auto simp: container_init_def Let_def)
    then show ?thesis
      by blast
  next
    case True
    with assms(3) obtain e where "write_file (can_write env) (?cg @ ''/cgroup.procs'')
        (to_string (sint (clone_ret env))) = Inl e"
      by (cases "write_file (can_write env) (?cg @ ''/cgroup.procs'')
        (to_string (sint (clone_ret env)))") (auto simp: executor_started_def)
    with pre True have "container_init env cfg dirs = ?ends (Init_terminates e)"
      by (simp add: container_init_def Let_def)
    then show ?thesis
      by blast
  qed
  then show "dirs_after (container_init env cfg dirs)
       = mkdir (mkdir_ok env) ?cg
           (mkdir (mkdir_ok env) (''/tmp/judger_sandbox_'' @ sandbox_id cfg) dirs)"
    and "result_pipe (container_init env cfg dirs) = \<lparr>written = [], faults = pipe_faults env\<rparr>"
    and "init_end (container_init env cfg dirs) = Init_returns 1
       \<or> (\<exists>e. init_end (container_init env cfg dirs) = Init_terminates e)"
    by auto
qed

lemma container_init_no_result:
  assumes "namespace_ready env" and "scratch_ready env cfg" and "executor_started env cfg"
    and "collect_result (files_after env) cfg (exec_status env)
           (cgroup cfg @ ''/judge.'' @ sandbox_id cfg)
           ((''/tmp/judger_sandbox_'' @ sandbox_id cfg) @ ''/tmp'') = Inl e"
  shows "container_init env cfg dirs
       = \<lparr>dirs_after = mkdir (mkdir_ok env) (cgroup cfg @ ''/judge.'' @ sandbox_id cfg)
            (mkdir (mkdir_ok env) (''/tmp/judger_sandbox_'' @ sandbox_id cfg) dirs),
          result_pipe = \<lparr>written = [], faults = pipe_faults env\<rparr>,
          init_end = Init_terminates e\<rparr>"
  using assms
  by (simp add: container_init_def namespace_ready_def scratch_ready_def executor_started_def
      Let_def)

lemma container_init_collected:
  assumes "namespace_ready env" and "scratch_ready env cfg" and "executor_started env cfg"
    and "collect_result (files_after env) cfg (exec_status env)
           (cgroup cfg @ ''/judge.'' @ sandbox_id cfg)
           ((''/tmp/judger_sandbox_'' @ sandbox_id cfg) @ ''/tmp'') = Inr res"
    and "write_frame (verdict_int (verdict res)) (time res) (memory res)
           (stdout_content res) (stderr_content res) (of_nat (length (output_files res)))
           (map (\<lambda>f. (filename f, content f)) (output_files res))
           \<lparr>written = [], faults = pipe_faults env\<rparr> = (r, p)"
  shows "container_init env cfg dirs
       = \<lparr>dirs_after = rmdir (rmdir_ok env) (''/tmp/judger_sandbox_'' @ sandbox_id cfg)
            (rmdir (rmdir_ok env) (cgroup cfg @ ''/judge.'' @ sandbox_id cfg)
              (mkdir (mkdir_ok env) (cgroup cfg @ ''/judge.'' @ sandbox_id cfg)
                (mkdir (mkdir_ok env) (''/tmp/judger_sandbox_'' @ sandbox_id cfg) dirs))),
          result_pipe =
            (if result_pipe_capacity env < length (written p)
             then p\<lparr>written := take (result_pipe_capacity env) (written p)\<rparr> else p),
          init_end =
            (if result_pipe_capacity env < length (written p) then Init_blocks
             else case r of Inl e \<Rightarrow> Init_terminates e | Inr u \<Rightarrow> Init_returns 0)\<rparr>"
  using assms
  by (simp add: container_init_def namespace_ready_def scratch_ready_def executor_started_def
      Let_def split: sum.splits)

text \<open>
  With a result pipe without faults the frame of the result is written whole when the
  pipe holds it, and container-init blocks when it does not.
\<close>

lemma container_init_frame:
  assumes "namespace_ready env" and "scratch_ready env cfg" and "executor_started env cfg"
    and "collect_result (files_after env) cfg (exec_status env)
           (cgroup cfg @ ''/judge.'' @ sandbox_id cfg)
           ((''/tmp/judger_sandbox_'' @ sandbox_id cfg) @ ''/tmp'') = Inr res"
    and "pipe_faults env = []"
    and "length (stdout_content res) < 2 ^ 31" and "length (stderr_content res) < 2 ^ 31"
    and "\<forall>f \<in> set (output_files res). length (filename f) < 2 ^ 31
           \<and> length (content f) < 2 ^ 31"
    and "fr = \<lparr>fr_verdict = verdict_int (verdict res), fr_time = time res,
              fr_memory = memory res, fr_stdout = stdout_content res,
              fr_stderr = stderr_content res,
              fr_file_cnt = of_nat (length (output_files res)),
              fr_files = map (\<lambda>f. (filename f, content f)) (output_files res)\<rparr>"
  shows "container_init env cfg dirs
       = \<lparr>dirs_after = rmdir (rmdir_ok env) (''/tmp/judger_sandbox_'' @ sandbox_id cfg)
            (rmdir (rmdir_ok env) (cgroup cfg @ ''/judge.'' @ sandbox_id cfg)
              (mkdir (mkdir_ok env) (cgroup cfg @ ''/judge.'' @ sandbox_id cfg)
                (mkdir (mkdir_ok env) (''/tmp/judger_sandbox_'' @ sandbox_id cfg) dirs))),
          result_pipe =
            \<lparr>written = (if result_pipe_capacity env < length (response_bytes fr)
                        then take (result_pipe_capacity env) (response_bytes fr)
                        else response_bytes fr),
             faults = []\<rparr>,
          init_end =
            (if result_pipe_capacity env < length (response_bytes fr) then Init_blocks
             else Init_returns 0)\<rparr>"
proof -
  have "\<forall>(name, buf) \<in> set (map (\<lambda>f. (filename f, content f)) (output_files res)).
          length name < 2 ^ 31 \<and> length buf < 2 ^ 31"
    using assms(8) by auto
  from write_frame_bytes [OF _ assms(6,7) this, of "\<lparr>written = [], faults = []\<rparr>"
      "verdict_int (verdict res)" "time res" "memory res"
      "of_nat (length (output_files res))"]
  have "write_frame (verdict_int (verdict res)) (time res) (memory res)
           (stdout_content res) (stderr_content res) (of_nat (length (output_files res)))
           (map (\<lambda>f. (filename f, content f)) (output_files res))
           \<lparr>written = [], faults = pipe_faults env\<rparr>
      = (Inr (), \<lparr>written = response_bytes fr, faults = []\<rparr>)"
    unfolding assms(5) assms(9) by simp
  from container_init_collected [OF assms(1-4) this, of dirs] show ?thesis
    by (simp add: assms(9))
qed

text \<open>What a return of 0 or 1 says about the run.\<close>

lemma container_init_returns_0:
  assumes "init_end (container_init env cfg dirs) = Init_returns 0"
  shows "namespace_ready env \<and> scratch_ready env cfg \<and> executor_started env cfg
       \<and> (\<exists>res.
           collect_result (files_after env) cfg (exec_status env)
             (cgroup cfg @ ''/judge.'' @ sandbox_id cfg)
             ((''/tmp/judger_sandbox_'' @ sandbox_id cfg) @ ''/tmp'') = Inr res
         \<and> write_frame (verdict_int (verdict res)) (time res) (memory res)
             (stdout_content res) (stderr_content res) (of_nat (length (output_files res)))
             (map (\<lambda>f. (filename f, content f)) (output_files res))
             \<lparr>written = [], faults = pipe_faults env\<rparr>
           = (Inr (), result_pipe (container_init env cfg dirs))
         \<and> length (written (result_pipe (container_init env cfg dirs)))
             \<le> result_pipe_capacity env
         \<and> dirs_after (container_init env cfg dirs)
           = rmdir (rmdir_ok env) (''/tmp/judger_sandbox_'' @ sandbox_id cfg)
               (rmdir (rmdir_ok env) (cgroup cfg @ ''/judge.'' @ sandbox_id cfg)
                 (mkdir (mkdir_ok env) (cgroup cfg @ ''/judge.'' @ sandbox_id cfg)
                   (mkdir (mkdir_ok env) (''/tmp/judger_sandbox_'' @ sandbox_id cfg) dirs))))"
proof -
  let ?run = "collect_result (files_after env) cfg (exec_status env)
             (cgroup cfg @ ''/judge.'' @ sandbox_id cfg)
             ((''/tmp/judger_sandbox_'' @ sandbox_id cfg) @ ''/tmp'')"
  have n: "namespace_ready env"
    using assms container_init_no_namespace [of env cfg dirs] by (cases "namespace_ready env") auto
  have s: "scratch_ready env cfg"
    using assms n container_init_no_scratch [of env cfg dirs]
    by (cases "scratch_ready env cfg") auto
  have x: "executor_started env cfg"
    using assms container_init_no_executor(3) [OF n s, of dirs]
    by (cases "executor_started env cfg") auto
  obtain res where c: "?run = Inr res"
    using assms container_init_no_result [OF n s x, of _ dirs] by (cases ?run) auto
  obtain r p where w: "write_frame (verdict_int (verdict res)) (time res) (memory res)
      (stdout_content res) (stderr_content res) (of_nat (length (output_files res)))
      (map (\<lambda>f. (filename f, content f)) (output_files res))
      \<lparr>written = [], faults = pipe_faults env\<rparr> = (r, p)"
    by (cases "write_frame (verdict_int (verdict res)) (time res) (memory res)
      (stdout_content res) (stderr_content res) (of_nat (length (output_files res)))
      (map (\<lambda>f. (filename f, content f)) (output_files res))
      \<lparr>written = [], faults = pipe_faults env\<rparr>")
  note ci = container_init_collected [OF n s x c w, of dirs]
  from assms have fits: "\<not> result_pipe_capacity env < length (written p)"
    unfolding ci by (auto split: if_splits)
  with assms have r: "r = Inr ()"
    unfolding ci by (auto split: sum.splits)
  from fits have p: "result_pipe (container_init env cfg dirs) = p"
    unfolding ci by simp
  from fits have d: "dirs_after (container_init env cfg dirs)
      = rmdir (rmdir_ok env) (''/tmp/judger_sandbox_'' @ sandbox_id cfg)
               (rmdir (rmdir_ok env) (cgroup cfg @ ''/judge.'' @ sandbox_id cfg)
                 (mkdir (mkdir_ok env) (cgroup cfg @ ''/judge.'' @ sandbox_id cfg)
                   (mkdir (mkdir_ok env) (''/tmp/judger_sandbox_'' @ sandbox_id cfg) dirs)))"
    unfolding ci by simp
  from fits p have l: "length (written (result_pipe (container_init env cfg dirs)))
      \<le> result_pipe_capacity env"
    by simp
  from w r p have "write_frame (verdict_int (verdict res)) (time res) (memory res)
      (stdout_content res) (stderr_content res) (of_nat (length (output_files res)))
      (map (\<lambda>f. (filename f, content f)) (output_files res))
      \<lparr>written = [], faults = pipe_faults env\<rparr>
      = (Inr (), result_pipe (container_init env cfg dirs))"
    by simp
  with n s x c l d show ?thesis
    by blast
qed

lemma container_init_returns_1:
  assumes "init_end (container_init env cfg dirs) = Init_returns 1"
  shows "result_pipe (container_init env cfg dirs) = \<lparr>written = [], faults = pipe_faults env\<rparr>"
    and "\<not> (namespace_ready env \<and> scratch_ready env cfg \<and> executor_started env cfg)"
proof -
  let ?run = "collect_result (files_after env) cfg (exec_status env)
             (cgroup cfg @ ''/judge.'' @ sandbox_id cfg)
             ((''/tmp/judger_sandbox_'' @ sandbox_id cfg) @ ''/tmp'')"
  show no: "\<not> (namespace_ready env \<and> scratch_ready env cfg \<and> executor_started env cfg)"
  proof
    assume a: "namespace_ready env \<and> scratch_ready env cfg \<and> executor_started env cfg"
    then have n: "namespace_ready env" and s: "scratch_ready env cfg"
      and x: "executor_started env cfg"
      by blast+
    show False
    proof (cases ?run)
      case (Inl e)
      from container_init_no_result [OF n s x Inl, of dirs] assms show False
        by simp
    next
      case (Inr res)
      obtain r p where w: "write_frame (verdict_int (verdict res)) (time res) (memory res)
          (stdout_content res) (stderr_content res) (of_nat (length (output_files res)))
          (map (\<lambda>f. (filename f, content f)) (output_files res))
          \<lparr>written = [], faults = pipe_faults env\<rparr> = (r, p)"
        by (cases "write_frame (verdict_int (verdict res)) (time res) (memory res)
          (stdout_content res) (stderr_content res) (of_nat (length (output_files res)))
          (map (\<lambda>f. (filename f, content f)) (output_files res))
          \<lparr>written = [], faults = pipe_faults env\<rparr>")
      from assms show False
        unfolding container_init_collected [OF n s x Inr w, of dirs]
        by (auto split: if_splits sum.splits)
    qed
  qed
  show "result_pipe (container_init env cfg dirs) = \<lparr>written = [], faults = pipe_faults env\<rparr>"
  proof (cases "namespace_ready env")
    case False
    then show ?thesis
      by (simp add: container_init_no_namespace)
  next
    case n: True
    show ?thesis
    proof (cases "scratch_ready env cfg")
      case False
      with n show ?thesis
        by (simp add: container_init_no_scratch)
    next
      case s: True
      with n no have "\<not> executor_started env cfg"
        by simp
      from container_init_no_executor(2) [OF n s this] show ?thesis .
    qed
  qed
qed

lemma example_stages:
  "namespace_ready example_init_env" "scratch_ready example_init_env example_cfg"
  "executor_started example_init_env example_cfg"
  by (simp_all add: namespace_ready_def scratch_ready_def executor_started_def
      example_init_env_def example_cfg_def write_input_files_def restrict_resource_def
      write_file_def word_sless_alt)

lemma example_run_ok:
  "collect_result (example_files cpu_stat_500ms events_calm) example_cfg 0
       ''/cg/judge.x'' ''/tmp/judger_sandbox_x/tmp''
     = Inr \<lparr>verdict = VERDICT_OK, time = 500, memory = 3, stdout_content = ''hi'',
            stderr_content = [],
            output_files = [\<lparr>filename = ''a'', content = ''xy'', mode = 0\<rparr>]\<rparr>"
  by (simp add: example_simps)

lemma example_frame_length:
  "length (response_bytes
     \<lparr>fr_verdict = 0, fr_time = 500, fr_memory = 3, fr_stdout = ''hi'',
      fr_stderr = [], fr_file_cnt = 1, fr_files = [(''a'', ''xy'')]\<rparr>) = 41"
  by (simp add: response_bytes_def proto_bytes_def length_int_bytes length_llong_bytes)

lemma example_container_init:
  "container_init example_init_env example_cfg {}
     = \<lparr>dirs_after = {},
        result_pipe =
          \<lparr>written = response_bytes
             \<lparr>fr_verdict = 0, fr_time = 500, fr_memory = 3, fr_stdout = ''hi'',
              fr_stderr = [], fr_file_cnt = 1, fr_files = [(''a'', ''xy'')]\<rparr>,
           faults = []\<rparr>,
        init_end = Init_returns 0\<rparr>"
proof -
  have run: "collect_result (files_after example_init_env) example_cfg
      (exec_status example_init_env) (cgroup example_cfg @ ''/judge.'' @ sandbox_id example_cfg)
      ((''/tmp/judger_sandbox_'' @ sandbox_id example_cfg) @ ''/tmp'')
     = Inr \<lparr>verdict = VERDICT_OK, time = 500, memory = 3, stdout_content = ''hi'',
            stderr_content = [],
            output_files = [\<lparr>filename = ''a'', content = ''xy'', mode = 0\<rparr>]\<rparr>"
    using example_run_ok by (simp add: example_init_env_def example_cfg_def)
  have env: "pipe_faults example_init_env = []" "result_pipe_capacity example_init_env = 65536"
    "mkdir_ok example_init_env = (\<lambda>p. True)" "rmdir_ok example_init_env = (\<lambda>p. True)"
    by (simp_all add: example_init_env_def)
  have "container_init example_init_env example_cfg {}
     = \<lparr>dirs_after = rmdir (\<lambda>p. True) (''/tmp/judger_sandbox_'' @ sandbox_id example_cfg)
            (rmdir (\<lambda>p. True) (cgroup example_cfg @ ''/judge.'' @ sandbox_id example_cfg)
              (mkdir (\<lambda>p. True) (cgroup example_cfg @ ''/judge.'' @ sandbox_id example_cfg)
                (mkdir (\<lambda>p. True) (''/tmp/judger_sandbox_'' @ sandbox_id example_cfg) {}))),
        result_pipe =
          \<lparr>written = response_bytes
             \<lparr>fr_verdict = 0, fr_time = 500, fr_memory = 3, fr_stdout = ''hi'',
              fr_stderr = [], fr_file_cnt = 1, fr_files = [(''a'', ''xy'')]\<rparr>,
           faults = []\<rparr>,
        init_end = Init_returns 0\<rparr>"
    using container_init_frame [OF example_stages run env(1) _ _ _ refl, of "{}"]
    by (simp add: env example_frame_length)
  then show ?thesis
    by (simp add: example_cfg_def mkdir_def rmdir_def)
qed

subsection \<open>The supervisor\<close>







text \<open>
  When every step succeeds and container-init ends, the supervisor passes on the frame
  of container-init as it is. When container-init blocks, the supervisor waits for ever.
\<close>

lemma main_relays:
  assumes "read_config \<lparr>pending = stdin_bytes env, calls = []\<rparr> = Inr (cfg, rest)"
    and "child_pipe_ok env" and "result_pipe_ok env" and "\<not> ns_pid env <s 0"
    and "write_id_maps env = Inr ()"
    and "written (result_pipe (container_init (init env) cfg (host_dirs env)))
           = response_bytes fr"
    and "init_end (container_init (init env) cfg (host_dirs env)) \<noteq> Init_blocks"
    and "length (fr_stdout fr) < 2 ^ 31" and "length (fr_stderr fr) < 2 ^ 31"
    and "\<forall>(name, buf) \<in> set (fr_files fr). length name < 2 ^ 31 \<and> length buf < 2 ^ 31"
    and "length (fr_files fr) < 2 ^ 31"
    and "fr_file_cnt fr = of_nat (length (fr_files fr))"
    and "stdout_faults env = []"
  shows "try_block env \<lparr>written = [], faults = stdout_faults env\<rparr>
           = Some (Inr (), \<lparr>written = response_bytes fr, faults = []\<rparr>)"
    and "main env = (response_bytes fr, Exit 0)"
proof -
  obtain cs' where rf: "read_frame \<lparr>pending = response_bytes fr, calls = []\<rparr>
      = Inr (fr, \<lparr>pending = [], calls = cs'\<rparr>)"
    using read_frame_encoded [OF assms(8-12), of "[]" "[]"] by auto
  have eta: "\<lparr>fr_verdict = fr_verdict fr, fr_time = fr_time fr, fr_memory = fr_memory fr,
      fr_stdout = fr_stdout fr, fr_stderr = fr_stderr fr, fr_file_cnt = fr_file_cnt fr,
      fr_files = fr_files fr\<rparr> = fr"
    by (cases fr) simp
  have "write_frame (fr_verdict fr) (fr_time fr) (fr_memory fr) (fr_stdout fr) (fr_stderr fr)
          (fr_file_cnt fr) (fr_files fr) \<lparr>written = [], faults = []\<rparr>
      = (Inr (), \<lparr>written = response_bytes fr, faults = []\<rparr>)"
    using write_frame_bytes [of "\<lparr>written = [], faults = []\<rparr>" "fr_stdout fr" "fr_stderr fr"
        "fr_files fr" "fr_verdict fr" "fr_time fr" "fr_memory fr" "fr_file_cnt fr"]
      assms(8-10)
    by (simp add: eta)
  then show t: "try_block env \<lparr>written = [], faults = stdout_faults env\<rparr>
           = Some (Inr (), \<lparr>written = response_bytes fr, faults = []\<rparr>)"
    using assms(1-7,13) rf by (simp add: try_block_def Let_def)
  then show "main env = (response_bytes fr, Exit 0)"
    by (simp add: main_def)
qed





subsection \<open>The example runs\<close>

lemma example_request:
  "\<exists>cs'. read_config \<lparr>pending = request_bytes example_cfg, calls = []\<rparr>
           = Inr (example_cfg, \<lparr>pending = [], calls = cs'\<rparr>)"
  using read_config_encoded [of example_cfg "[]" "[]"] by (simp add: example_cfg_def)

lemma example_id_maps: "write_id_maps example_super_env = Inr ()"
  by (simp add: write_id_maps_def example_super_env_def Let_def write_file_def)


lemma example_main:
  "main example_super_env
     = (response_bytes \<lparr>fr_verdict = 0, fr_time = 500, fr_memory = 3, fr_stdout = ''hi'',
                        fr_stderr = [], fr_file_cnt = 1, fr_files = [(''a'', ''xy'')]\<rparr>,
        Exit 0)"
proof -
  obtain cs' where "read_config \<lparr>pending = stdin_bytes example_super_env, calls = []\<rparr>
      = Inr (example_cfg, \<lparr>pending = [], calls = cs'\<rparr>)"
    using example_request by (auto simp: example_super_env_def)
  then show ?thesis
    by (rule main_relays(2))
       (simp_all add: example_id_maps example_container_init,
        simp_all add: example_super_env_def word_sless_alt example_container_init)
qed

text \<open>A failing bind mount, and a failing \<open>pipe2\<close>.\<close>

lemma example_failed_mount:
  "container_init (example_init_env\<lparr>mount_bind_ok := False\<rparr>) example_cfg {}
     = \<lparr>dirs_after = {''/tmp/judger_sandbox_x''},
        result_pipe = \<lparr>written = [], faults = []\<rparr>,
        init_end = Init_returns 1\<rparr>"
  by (simp add: container_init_def example_init_env_def example_cfg_def Let_def mkdir_def)

lemma example_failed_pipe:
  "container_init (example_init_env\<lparr>pipe2_ok := False\<rparr>) example_cfg {}
     = \<lparr>dirs_after = {''/cg/judge.x'', ''/tmp/judger_sandbox_x''},
        result_pipe = \<lparr>written = [], faults = []\<rparr>,
        init_end = Init_returns 1\<rparr>"
  by (simp add: container_init_def example_init_env_def example_cfg_def Let_def mkdir_def
      write_input_files_def)









text \<open>The output file that is a directory.\<close>

lemma example_dir_stages:
  "namespace_ready example_dir_env" "scratch_ready example_dir_env example_cfg"
  "executor_started example_dir_env example_cfg"
  "pipe_faults example_dir_env = []" "mkdir_ok example_dir_env = (\<lambda>p. True)"
  by (simp_all add: namespace_ready_def scratch_ready_def executor_started_def
      example_dir_env_def example_init_env_def example_cfg_def write_input_files_def
      restrict_resource_def write_file_def word_sless_alt)

lemma example_dir_read:
  "read_bin_file (files_after example_dir_env) ''/tmp/judger_sandbox_x/tmp/a'' = Inl bad_alloc"
  by (simp add: read_bin_file_def example_dir_env_def example_init_env_def word_sless_alt)

lemma example_dir_run:
  "\<exists>e. collect_result (files_after example_dir_env) example_cfg (exec_status example_dir_env)
       (cgroup example_cfg @ ''/judge.'' @ sandbox_id example_cfg)
       ((''/tmp/judger_sandbox_'' @ sandbox_id example_cfg) @ ''/tmp'') = Inl e"
proof (rule collect_result_throws)
  show "collect_output_files (files_after example_dir_env)
      ((''/tmp/judger_sandbox_'' @ sandbox_id example_cfg) @ ''/tmp'')
      (output_filenames example_cfg) = Inl bad_alloc"
    using example_dir_read by (simp add: example_cfg_def)
qed

lemma example_dir_init:
  "\<exists>e. container_init example_dir_env example_cfg {}
     = \<lparr>dirs_after = {''/cg/judge.x'', ''/tmp/judger_sandbox_x''},
        result_pipe = \<lparr>written = [], faults = []\<rparr>,
        init_end = Init_terminates e\<rparr>"
proof -
  from example_dir_run obtain e where
    "collect_result (files_after example_dir_env) example_cfg (exec_status example_dir_env)
       (cgroup example_cfg @ ''/judge.'' @ sandbox_id example_cfg)
       ((''/tmp/judger_sandbox_'' @ sandbox_id example_cfg) @ ''/tmp'') = Inl e"
    by blast
  from container_init_no_result [OF example_dir_stages(1-3) this, of "{}"]
  have "container_init example_dir_env example_cfg {}
     = \<lparr>dirs_after = {''/cg/judge.x'', ''/tmp/judger_sandbox_x''},
        result_pipe = \<lparr>written = [], faults = []\<rparr>,
        init_end = Init_terminates e\<rparr>"
    by (simp add: example_dir_stages example_cfg_def mkdir_def)
  then show ?thesis
    by blast
qed





subsection \<open>Directories\<close>

lemma mkdir_keeps: "x \<in> dirs \<Longrightarrow> x \<in> mkdir ok path dirs"
  by (simp add: mkdir_def)

lemma mkdir_makes: "ok path \<Longrightarrow> path \<in> mkdir ok path dirs"
  by (simp add: mkdir_def)

lemma mkdir_superset: "dirs \<subseteq> mkdir ok path dirs"
  by (auto simp: mkdir_def)

lemma rmdir_removes: "ok path \<Longrightarrow> path \<notin> rmdir ok path dirs"
  by (simp add: rmdir_def)

lemma rmdir_subset: "rmdir ok path dirs \<subseteq> dirs"
  by (auto simp: rmdir_def)

lemma container_init_teardown:
  assumes "namespace_ready env" and "scratch_ready env cfg" and "executor_started env cfg"
    and "collect_result (files_after env) cfg (exec_status env)
           (cgroup cfg @ ''/judge.'' @ sandbox_id cfg)
           ((''/tmp/judger_sandbox_'' @ sandbox_id cfg) @ ''/tmp'') = Inr res"
  shows "dirs_after (container_init env cfg dirs)
       = rmdir (rmdir_ok env) (''/tmp/judger_sandbox_'' @ sandbox_id cfg)
           (rmdir (rmdir_ok env) (cgroup cfg @ ''/judge.'' @ sandbox_id cfg)
             (mkdir (mkdir_ok env) (cgroup cfg @ ''/judge.'' @ sandbox_id cfg)
               (mkdir (mkdir_ok env) (''/tmp/judger_sandbox_'' @ sandbox_id cfg) dirs)))"
proof -
  obtain r p where w: "write_frame (verdict_int (verdict res)) (time res) (memory res)
      (stdout_content res) (stderr_content res) (of_nat (length (output_files res)))
      (map (\<lambda>f. (filename f, content f)) (output_files res))
      \<lparr>written = [], faults = pipe_faults env\<rparr> = (r, p)"
    by (cases "write_frame (verdict_int (verdict res)) (time res) (memory res)
      (stdout_content res) (stderr_content res) (of_nat (length (output_files res)))
      (map (\<lambda>f. (filename f, content f)) (output_files res))
      \<lparr>written = [], faults = pipe_faults env\<rparr>")
  show ?thesis
    unfolding container_init_collected [OF assms w, of dirs] by simp
qed

text \<open>
  Claim C9 fails as it stands. When the bind mount fails, container-init returns 1 right
  after it has created the scratch directory: after the call the scratch directory
  exists, not removed, and the cgroup directory was never created. When \<open>pipe2\<close> fails,
  container-init returns 1 after it has created both directories: after the call both
  exist, and neither was removed.
\<close>

theorem directories_counterexample:
  "container_init (example_init_env\<lparr>mount_bind_ok := False\<rparr>) example_cfg {}
     = \<lparr>dirs_after = {''/tmp/judger_sandbox_x''},
        result_pipe = \<lparr>written = [], faults = []\<rparr>,
        init_end = Init_returns 1\<rparr>
   \<and> ''/tmp/judger_sandbox_'' @ sandbox_id example_cfg
       \<in> dirs_after (container_init (example_init_env\<lparr>mount_bind_ok := False\<rparr>) example_cfg {})
   \<and> cgroup example_cfg @ ''/judge.'' @ sandbox_id example_cfg
       \<notin> dirs_after (container_init (example_init_env\<lparr>mount_bind_ok := False\<rparr>) example_cfg {})
   \<and> container_init (example_init_env\<lparr>pipe2_ok := False\<rparr>) example_cfg {}
     = \<lparr>dirs_after = {''/cg/judge.x'', ''/tmp/judger_sandbox_x''},
        result_pipe = \<lparr>written = [], faults = []\<rparr>,
        init_end = Init_returns 1\<rparr>
   \<and> ''/tmp/judger_sandbox_'' @ sandbox_id example_cfg
       \<in> dirs_after (container_init (example_init_env\<lparr>pipe2_ok := False\<rparr>) example_cfg {})
   \<and> cgroup example_cfg @ ''/judge.'' @ sandbox_id example_cfg
       \<in> dirs_after (container_init (example_init_env\<lparr>pipe2_ok := False\<rparr>) example_cfg {})"
  using example_failed_mount example_failed_pipe by (simp add: example_cfg_def)

text \<open>
  Claim C9, as amended. The directories after the call are fixed by the first step of
  container-init that fails. With \<open>root\<close> the scratch directory
  \<open>/tmp/judger_sandbox_<sandbox_id>\<close> and \<open>cg\<close> the cgroup directory
  \<open>judge.<sandbox_id>\<close>:

  \<^item> when the barrier or the namespace fails, container-init returns 1 and the directories
    are as before;
  \<^item> when a mount or an input file fails, it returns 1 and the directories are those
    before with \<open>mkdir root\<close> applied;
  \<^item> when a later step fails before the result is collected, by a return of 1 or by an
    uncaught exception (of the write to \<open>cgroup.procs\<close>, of \<open>stoll\<close> or \<open>stoi\<close>,
    or of reading an output file back), the directories are those before with
    \<open>mkdir root\<close> and \<open>mkdir cg\<close> applied;
  \<^item> when the result is collected, both \<open>rmdir\<close> calls are made, whatever becomes of
    the writes of the result.

  So a return of 0 leaves neither directory where both \<open>rmdir\<close> calls succeed, and on
  every path that ends before the result is collected, among them every return of 1,
  nothing is removed: each directory that was there before is still there, and so is each
  of the two that container-init has made.
\<close>

theorem directories_after:
  "(\<not> namespace_ready env
      \<longrightarrow> dirs_after (container_init env cfg dirs) = dirs
        \<and> init_end (container_init env cfg dirs) = Init_returns 1)
   \<and> (namespace_ready env \<and> \<not> scratch_ready env cfg
      \<longrightarrow> dirs_after (container_init env cfg dirs)
          = mkdir (mkdir_ok env) (''/tmp/judger_sandbox_'' @ sandbox_id cfg) dirs
        \<and> init_end (container_init env cfg dirs) = Init_returns 1)
   \<and> (namespace_ready env \<and> scratch_ready env cfg
        \<and> (\<not> executor_started env cfg
           \<or> (\<exists>e. collect_result (files_after env) cfg (exec_status env)
                      (cgroup cfg @ ''/judge.'' @ sandbox_id cfg)
                      ((''/tmp/judger_sandbox_'' @ sandbox_id cfg) @ ''/tmp'') = Inl e))
      \<longrightarrow> dirs_after (container_init env cfg dirs)
          = mkdir (mkdir_ok env) (cgroup cfg @ ''/judge.'' @ sandbox_id cfg)
              (mkdir (mkdir_ok env) (''/tmp/judger_sandbox_'' @ sandbox_id cfg) dirs)
        \<and> (init_end (container_init env cfg dirs) = Init_returns 1
           \<or> (\<exists>e. init_end (container_init env cfg dirs) = Init_terminates e)))
   \<and> (namespace_ready env \<and> scratch_ready env cfg \<and> executor_started env cfg
        \<and> (\<exists>res. collect_result (files_after env) cfg (exec_status env)
                     (cgroup cfg @ ''/judge.'' @ sandbox_id cfg)
                     ((''/tmp/judger_sandbox_'' @ sandbox_id cfg) @ ''/tmp'') = Inr res)
      \<longrightarrow> dirs_after (container_init env cfg dirs)
          = rmdir (rmdir_ok env) (''/tmp/judger_sandbox_'' @ sandbox_id cfg)
              (rmdir (rmdir_ok env) (cgroup cfg @ ''/judge.'' @ sandbox_id cfg)
                (mkdir (mkdir_ok env) (cgroup cfg @ ''/judge.'' @ sandbox_id cfg)
                  (mkdir (mkdir_ok env) (''/tmp/judger_sandbox_'' @ sandbox_id cfg) dirs))))
   \<and> (init_end (container_init env cfg dirs) = Init_returns 0
      \<longrightarrow> dirs_after (container_init env cfg dirs)
          = rmdir (rmdir_ok env) (''/tmp/judger_sandbox_'' @ sandbox_id cfg)
              (rmdir (rmdir_ok env) (cgroup cfg @ ''/judge.'' @ sandbox_id cfg)
                (mkdir (mkdir_ok env) (cgroup cfg @ ''/judge.'' @ sandbox_id cfg)
                  (mkdir (mkdir_ok env) (''/tmp/judger_sandbox_'' @ sandbox_id cfg) dirs)))
        \<and> (rmdir_ok env (''/tmp/judger_sandbox_'' @ sandbox_id cfg)
             \<and> rmdir_ok env (cgroup cfg @ ''/judge.'' @ sandbox_id cfg)
           \<longrightarrow> ''/tmp/judger_sandbox_'' @ sandbox_id cfg
                 \<notin> dirs_after (container_init env cfg dirs)
             \<and> cgroup cfg @ ''/judge.'' @ sandbox_id cfg
                 \<notin> dirs_after (container_init env cfg dirs)))
   \<and> (init_end (container_init env cfg dirs) = Init_returns 1
        \<or> (\<exists>e. collect_result (files_after env) cfg (exec_status env)
                   (cgroup cfg @ ''/judge.'' @ sandbox_id cfg)
                   ((''/tmp/judger_sandbox_'' @ sandbox_id cfg) @ ''/tmp'') = Inl e)
        \<or> \<not> (namespace_ready env \<and> scratch_ready env cfg \<and> executor_started env cfg)
      \<longrightarrow> dirs \<subseteq> dirs_after (container_init env cfg dirs)
        \<and> (namespace_ready env \<and> mkdir_ok env (''/tmp/judger_sandbox_'' @ sandbox_id cfg)
           \<longrightarrow> ''/tmp/judger_sandbox_'' @ sandbox_id cfg
                 \<in> dirs_after (container_init env cfg dirs))
        \<and> (namespace_ready env \<and> scratch_ready env cfg
             \<and> mkdir_ok env (cgroup cfg @ ''/judge.'' @ sandbox_id cfg)
           \<longrightarrow> cgroup cfg @ ''/judge.'' @ sandbox_id cfg
                 \<in> dirs_after (container_init env cfg dirs)))"
proof -
  let ?root = "''/tmp/judger_sandbox_'' @ sandbox_id cfg"
  let ?cg = "cgroup cfg @ ''/judge.'' @ sandbox_id cfg"
  let ?r = "container_init env cfg dirs"
  let ?run = "collect_result (files_after env) cfg (exec_status env) ?cg (?root @ ''/tmp'')"
  let ?d1 = "mkdir (mkdir_ok env) ?root dirs"
  let ?d2 = "mkdir (mkdir_ok env) ?cg ?d1"
  let ?d4 = "rmdir (rmdir_ok env) ?root (rmdir (rmdir_ok env) ?cg ?d2)"
  have c0: "\<not> namespace_ready env \<longrightarrow> dirs_after ?r = dirs \<and> init_end ?r = Init_returns 1"
    by (simp add: container_init_no_namespace)
  have c1: "namespace_ready env \<and> \<not> scratch_ready env cfg
      \<longrightarrow> dirs_after ?r = ?d1 \<and> init_end ?r = Init_returns 1"
    by (simp add: container_init_no_scratch)
  have late: "dirs_after ?r = ?d2
        \<and> (init_end ?r = Init_returns 1 \<or> (\<exists>e. init_end ?r = Init_terminates e))"
    if n: "namespace_ready env" and s: "scratch_ready env cfg"
      and f: "\<not> executor_started env cfg \<or> (\<exists>e. ?run = Inl e)"
  proof (cases "executor_started env cfg")
    case False
    from container_init_no_executor(1,3) [OF n s False, of dirs] show ?thesis
      by blast
  next
    case True
    with f obtain e where "?run = Inl e"
      by blast
    from container_init_no_result [OF n s True this, of dirs] show ?thesis
      by simp
  qed
  then have c2: "namespace_ready env \<and> scratch_ready env cfg
        \<and> (\<not> executor_started env cfg \<or> (\<exists>e. ?run = Inl e))
      \<longrightarrow> dirs_after ?r = ?d2
        \<and> (init_end ?r = Init_returns 1 \<or> (\<exists>e. init_end ?r = Init_terminates e))"
    by blast
  have c3: "namespace_ready env \<and> scratch_ready env cfg \<and> executor_started env cfg
        \<and> (\<exists>res. ?run = Inr res) \<longrightarrow> dirs_after ?r = ?d4"
    using container_init_teardown [of env cfg _ dirs] by blast
  have c4: "init_end ?r = Init_returns 0
      \<longrightarrow> dirs_after ?r = ?d4
        \<and> (rmdir_ok env ?root \<and> rmdir_ok env ?cg
           \<longrightarrow> ?root \<notin> dirs_after ?r \<and> ?cg \<notin> dirs_after ?r)"
  proof
    assume "init_end ?r = Init_returns 0"
    from container_init_returns_0 [OF this] have d: "dirs_after ?r = ?d4"
      by blast
    have "?root \<notin> ?d4" if "rmdir_ok env ?root"
      using that by (rule rmdir_removes)
    moreover have "?cg \<notin> ?d4" if "rmdir_ok env ?cg"
    proof -
      from that have "?cg \<notin> rmdir (rmdir_ok env) ?cg ?d2"
        by (rule rmdir_removes)
      with rmdir_subset [of "rmdir_ok env" ?root "rmdir (rmdir_ok env) ?cg ?d2"]
      show ?thesis
        by blast
    qed
    ultimately show "dirs_after ?r = ?d4
        \<and> (rmdir_ok env ?root \<and> rmdir_ok env ?cg
           \<longrightarrow> ?root \<notin> dirs_after ?r \<and> ?cg \<notin> dirs_after ?r)"
      unfolding d by blast
  qed
  have sub1: "dirs \<subseteq> ?d1" and sub2: "dirs \<subseteq> ?d2"
    using mkdir_superset [of dirs "mkdir_ok env" ?root]
      mkdir_superset [of ?d1 "mkdir_ok env" ?cg]
    by blast+
  have in1: "?root \<in> ?d1" and in2: "?root \<in> ?d2" if "mkdir_ok env ?root"
  proof -
    from that show "?root \<in> ?d1"
      by (rule mkdir_makes)
    then show "?root \<in> ?d2"
      by (rule mkdir_keeps)
  qed
  have in3: "?cg \<in> ?d2" if "mkdir_ok env ?cg"
    using that by (rule mkdir_makes)
  have c5: "dirs \<subseteq> dirs_after ?r
        \<and> (namespace_ready env \<and> mkdir_ok env ?root \<longrightarrow> ?root \<in> dirs_after ?r)
        \<and> (namespace_ready env \<and> scratch_ready env cfg \<and> mkdir_ok env ?cg
           \<longrightarrow> ?cg \<in> dirs_after ?r)"
    if a: "init_end ?r = Init_returns 1 \<or> (\<exists>e. ?run = Inl e)
        \<or> \<not> (namespace_ready env \<and> scratch_ready env cfg \<and> executor_started env cfg)"
  proof (cases "namespace_ready env")
    case False
    with c0 show ?thesis
      by simp
  next
    case n: True
    show ?thesis
    proof (cases "scratch_ready env cfg")
      case False
      with n c1 have "dirs_after ?r = ?d1"
        by simp
      with n False sub1 in1 show ?thesis
        by simp
    next
      case s: True
      have "\<not> executor_started env cfg \<or> (\<exists>e. ?run = Inl e)"
        using a n s container_init_returns_1(2) [of env cfg dirs] by blast
      from late [OF n s this] have "dirs_after ?r = ?d2"
        by blast
      with sub2 in2 in3 show ?thesis
        by simp
    qed
  qed
  then have c5': "init_end ?r = Init_returns 1 \<or> (\<exists>e. ?run = Inl e)
        \<or> \<not> (namespace_ready env \<and> scratch_ready env cfg \<and> executor_started env cfg)
      \<longrightarrow> dirs \<subseteq> dirs_after ?r
        \<and> (namespace_ready env \<and> mkdir_ok env ?root \<longrightarrow> ?root \<in> dirs_after ?r)
        \<and> (namespace_ready env \<and> scratch_ready env cfg \<and> mkdir_ok env ?cg
           \<longrightarrow> ?cg \<in> dirs_after ?r)"
    by blast
  show ?thesis
    by (intro conjI) (fact c0, fact c1, fact c2, fact c3, fact c4, fact c5')
qed

theorem directories_after_witness:
  "\<not> namespace_ready (example_init_env\<lparr>init_barrier_ok := False\<rparr>)
   \<and> dirs_after (container_init (example_init_env\<lparr>init_barrier_ok := False\<rparr>) example_cfg {})
       = {}
   \<and> namespace_ready (example_init_env\<lparr>mount_bind_ok := False\<rparr>)
   \<and> \<not> scratch_ready (example_init_env\<lparr>mount_bind_ok := False\<rparr>) example_cfg
   \<and> dirs_after (container_init (example_init_env\<lparr>mount_bind_ok := False\<rparr>) example_cfg {})
       = {''/tmp/judger_sandbox_x''}
   \<and> namespace_ready (example_init_env\<lparr>pipe2_ok := False\<rparr>)
   \<and> scratch_ready (example_init_env\<lparr>pipe2_ok := False\<rparr>) example_cfg
   \<and> \<not> executor_started (example_init_env\<lparr>pipe2_ok := False\<rparr>) example_cfg
   \<and> dirs_after (container_init (example_init_env\<lparr>pipe2_ok := False\<rparr>) example_cfg {})
       = {''/cg/judge.x'', ''/tmp/judger_sandbox_x''}
   \<and> init_end (container_init (example_init_env\<lparr>pipe2_ok := False\<rparr>) example_cfg {})
       = Init_returns 1
   \<and> namespace_ready example_dir_env \<and> scratch_ready example_dir_env example_cfg
   \<and> (\<exists>e. collect_result (files_after example_dir_env) example_cfg
              (exec_status example_dir_env)
              (cgroup example_cfg @ ''/judge.'' @ sandbox_id example_cfg)
              ((''/tmp/judger_sandbox_'' @ sandbox_id example_cfg) @ ''/tmp'') = Inl e)
   \<and> dirs_after (container_init example_dir_env example_cfg {})
       = {''/cg/judge.x'', ''/tmp/judger_sandbox_x''}
   \<and> (\<exists>e. init_end (container_init example_dir_env example_cfg {}) = Init_terminates e)
   \<and> init_end (container_init example_init_env example_cfg {}) = Init_returns 0
   \<and> dirs_after (container_init example_init_env example_cfg {}) = {}"
proof -
  let ?e0 = "example_init_env\<lparr>init_barrier_ok := False\<rparr>"
  let ?e1 = "example_init_env\<lparr>mount_bind_ok := False\<rparr>"
  let ?e2 = "example_init_env\<lparr>pipe2_ok := False\<rparr>"
  have s0: "\<not> namespace_ready ?e0"
    by (simp add: namespace_ready_def)
  have s1: "namespace_ready ?e1" "\<not> scratch_ready ?e1 example_cfg"
    using example_stages(1) by (simp_all add: namespace_ready_def scratch_ready_def)
  have s2: "namespace_ready ?e2" "scratch_ready ?e2 example_cfg"
    "\<not> executor_started ?e2 example_cfg"
    using example_stages(1,2)
    by (simp_all add: namespace_ready_def scratch_ready_def executor_started_def)
  have mk: "mkdir_ok ?e0 = (\<lambda>p. True)" "mkdir_ok ?e1 = (\<lambda>p. True)"
    "mkdir_ok ?e2 = (\<lambda>p. True)" "mkdir_ok example_dir_env = (\<lambda>p. True)"
    "mkdir_ok example_init_env = (\<lambda>p. True)" "rmdir_ok example_init_env = (\<lambda>p. True)"
    by (simp_all add: example_init_env_def example_dir_env_def)
  have cfg: "''/tmp/judger_sandbox_'' @ sandbox_id example_cfg = ''/tmp/judger_sandbox_x''"
    "cgroup example_cfg @ ''/judge.'' @ sandbox_id example_cfg = ''/cg/judge.x''"
    by (simp_all add: example_cfg_def)
  have d0: "dirs_after (container_init ?e0 example_cfg {}) = {}"
    using directories_after [of ?e0 example_cfg "{}"] s0 by blast
  have d1: "dirs_after (container_init ?e1 example_cfg {}) = {''/tmp/judger_sandbox_x''}"
  proof -
    have "dirs_after (container_init ?e1 example_cfg {})
        = mkdir (mkdir_ok ?e1) (''/tmp/judger_sandbox_'' @ sandbox_id example_cfg) {}"
      using directories_after [of ?e1 example_cfg "{}"] s1 by blast
    then show ?thesis
      unfolding mk cfg by (simp add: mkdir_def)
  qed
  have "dirs_after (container_init ?e2 example_cfg {})
        = mkdir (mkdir_ok ?e2) (cgroup example_cfg @ ''/judge.'' @ sandbox_id example_cfg)
            (mkdir (mkdir_ok ?e2) (''/tmp/judger_sandbox_'' @ sandbox_id example_cfg) {})
      \<and> (init_end (container_init ?e2 example_cfg {}) = Init_returns 1
         \<or> (\<exists>e. init_end (container_init ?e2 example_cfg {}) = Init_terminates e))"
    using directories_after [of ?e2 example_cfg "{}"] s2 by blast
  then have d2: "dirs_after (container_init ?e2 example_cfg {})
      = {''/cg/judge.x'', ''/tmp/judger_sandbox_x''}"
    unfolding mk cfg by (simp add: mkdir_def)
  have i2: "init_end (container_init ?e2 example_cfg {}) = Init_returns 1"
    by (simp add: example_failed_pipe)
  have "dirs_after (container_init example_dir_env example_cfg {})
        = mkdir (mkdir_ok example_dir_env)
            (cgroup example_cfg @ ''/judge.'' @ sandbox_id example_cfg)
            (mkdir (mkdir_ok example_dir_env)
              (''/tmp/judger_sandbox_'' @ sandbox_id example_cfg) {})
      \<and> (init_end (container_init example_dir_env example_cfg {}) = Init_returns 1
         \<or> (\<exists>e. init_end (container_init example_dir_env example_cfg {}) = Init_terminates e))"
    using directories_after [of example_dir_env example_cfg "{}"] example_dir_stages(1,2)
      example_dir_run
    by blast
  then have d3: "dirs_after (container_init example_dir_env example_cfg {})
      = {''/cg/judge.x'', ''/tmp/judger_sandbox_x''}"
    unfolding mk cfg by (simp add: mkdir_def)
  have i3: "\<exists>e. init_end (container_init example_dir_env example_cfg {}) = Init_terminates e"
    using example_dir_init by auto
  have i4: "init_end (container_init example_init_env example_cfg {}) = Init_returns 0"
    by (simp add: example_container_init)
  have "dirs_after (container_init example_init_env example_cfg {})
      = rmdir (rmdir_ok example_init_env) (''/tmp/judger_sandbox_'' @ sandbox_id example_cfg)
          (rmdir (rmdir_ok example_init_env)
            (cgroup example_cfg @ ''/judge.'' @ sandbox_id example_cfg)
            (mkdir (mkdir_ok example_init_env)
              (cgroup example_cfg @ ''/judge.'' @ sandbox_id example_cfg)
              (mkdir (mkdir_ok example_init_env)
                (''/tmp/judger_sandbox_'' @ sandbox_id example_cfg) {})))"
    using directories_after [of example_init_env example_cfg "{}"] i4 by blast
  then have d4: "dirs_after (container_init example_init_env example_cfg {}) = {}"
    unfolding mk cfg by (simp add: mkdir_def rmdir_def)
  show ?thesis
    by (intro conjI) (fact s0, fact d0, fact s1(1), fact s1(2), fact d1, fact s2(1),
        fact s2(2), fact s2(3), fact d2, fact i2, fact example_dir_stages(1),
        fact example_dir_stages(2), fact example_dir_run, fact d3, fact i3, fact i4, fact d4)
qed

subsection \<open>The output files of the response\<close>







end
